theory Spec2Isabelle
  imports Main "HOL-Library.Word"
begin

unbundle bit_operations_syntax

chapter \<open>Biometric credential and write-authorisation scripts\<close>

text \<open>
  A shallow embedding of the browser scripts of the repository that derive a ledger
  identity from a passkey and sign write proposals with it:
  \<^item> \<^verbatim>\<open>login/clientlibs/js/biometric-wallet-creation.js\<close> (\<^verbatim>\<open>deriveSecp256k1Wallet\<close>,
    \<^verbatim>\<open>deriveEthereumWallet\<close>, \<^verbatim>\<open>createBiometricWallet\<close>, \<^verbatim>\<open>registerBiometricWallet\<close>,
    \<^verbatim>\<open>setupBiometricWallet\<close>);
  \<^item> the older wallet-creation script (\<^verbatim>\<open>keccak256\<close>, \<^verbatim>\<open>deriveEthereumAddress\<close>);
  \<^item> the \<^verbatim>\<open>BiometricManager\<close> object (\<^verbatim>\<open>isAvailable\<close>, \<^verbatim>\<open>register\<close>,
    \<^verbatim>\<open>signWriteProposal\<close> and its helpers).

  Conventions. A \<^verbatim>\<open>Uint8Array\<close> is a list of 8-bit words. A JavaScript string is a
  \<^typ>\<open>string\<close>: its code units are restricted to 0..255, which covers every string the
  scripts build themselves (hexadecimal, base64, URLs). A thrown exception or a rejected
  promise is the \<open>Inl\<close> branch of a sum. Everything outside the scripts (the platform
  authenticator, the network, the wallet extension, the random generator, the
  \<^verbatim>\<open>ethers\<close> library) is a field of the record \<open>browser\<close>, so that a run is a function
  of the browser it starts in. The platform interfaces the scripts use without testing
  for them (\<^verbatim>\<open>crypto.subtle\<close>, \<^verbatim>\<open>navigator.credentials\<close>, \<^verbatim>\<open>fetch\<close>, the two
  storages) are taken to exist, as they do in the secure contexts WebAuthn requires.
  Console output is not part of the model.
\<close>

section \<open>Bytes, strings and errors\<close>

type_synonym byte = "8 word"
type_synonym u32 = "32 word"

text \<open>A JavaScript exception: its \<^verbatim>\<open>name\<close> and its \<^verbatim>\<open>message\<close>.\<close>

datatype js_error = JsError (err_name: string) (err_message: string)

text \<open>\<^verbatim>\<open>new Error(message)\<close>.\<close>

definition Error :: "string \<Rightarrow> js_error" where
  "Error msg = JsError ''Error'' msg"

text \<open>\<^verbatim>\<open>String.fromCharCode(b)\<close> for a byte and \<^verbatim>\<open>s.charCodeAt(i)\<close> stored into a
  \<^verbatim>\<open>Uint8Array\<close>; past the end of the string it is \<^verbatim>\<open>NaN\<close>, which is stored as 0.\<close>

definition fromCharCode :: "byte \<Rightarrow> char" where
  "fromCharCode b = char_of (unat b)"

definition charCodeAt :: "string \<Rightarrow> nat \<Rightarrow> byte" where
  "charCodeAt s i = (if i < length s then word_of_nat (of_char (s ! i)) else 0)"

text \<open>\<^verbatim>\<open>n.toString(16)\<close> for a non-negative integer, and \<^verbatim>\<open>s.padStart(n, c)\<close> with a
  one-character filler.\<close>

definition hex_digit :: "nat \<Rightarrow> char" where
  "hex_digit n = ''0123456789abcdef'' ! n"

fun toString16 :: "nat \<Rightarrow> string" where
  "toString16 n = (if n < 16 then [hex_digit n] else toString16 (n div 16) @ [hex_digit (n mod 16)])"

declare toString16.simps [simp del]

definition padStart :: "nat \<Rightarrow> char \<Rightarrow> string \<Rightarrow> string" where
  "padStart n c s = replicate (n - length s) c @ s"

text \<open>\<^verbatim>\<open>Array.from(bytes).map(b => b.toString(16).padStart(2, '0')).join('')\<close>.\<close>

definition bytesToHex :: "byte list \<Rightarrow> string" where
  "bytesToHex bytes = concat (map (\<lambda>b. padStart 2 (CHR ''0'') (toString16 (unat b))) bytes)"

text \<open>\<^verbatim>\<open>typed.slice(from, to)\<close> with non-negative bounds, and \<^verbatim>\<open>dst.set(src, offset)\<close>,
  which throws a \<^verbatim>\<open>RangeError\<close> when the source does not fit.\<close>

definition u8_slice :: "nat \<Rightarrow> nat \<Rightarrow> byte list \<Rightarrow> byte list" where
  "u8_slice from to xs = take (to - from) (drop from xs)"

definition u8_set :: "byte list \<Rightarrow> nat \<Rightarrow> byte list \<Rightarrow> js_error + byte list" where
  "u8_set src offset dst =
     (if offset + length src \<le> length dst
      then Inr (take offset dst @ src @ drop (offset + length src) dst)
      else Inl (JsError ''RangeError'' ''offset is out of bounds''))"

section \<open>Base64: \<^verbatim>\<open>btoa\<close> and \<^verbatim>\<open>atob\<close>\<close>

definition b64_alphabet :: string where
  "b64_alphabet = ''ABCDEFGHIJKLMNOPQRSTUVWXYZabcdefghijklmnopqrstuvwxyz0123456789+/''"

definition b64_char :: "nat \<Rightarrow> char" where
  "b64_char n = b64_alphabet ! n"

fun index_of :: "'a \<Rightarrow> 'a list \<Rightarrow> nat option" where
  "index_of x [] = None"
| "index_of x (y # ys) = (if x = y then Some 0 else map_option Suc (index_of x ys))"

definition b64_index :: "char \<Rightarrow> nat option" where
  "b64_index c = index_of c b64_alphabet"

text \<open>Three bytes become four characters; a last group of one or two bytes is padded
  with \<^verbatim>\<open>=\<close>.\<close>

fun enc_groups :: "nat list \<Rightarrow> string" where
  "enc_groups (a # b # c # rest) =
     [b64_char (a div 4), b64_char ((a mod 4) * 16 + b div 16),
      b64_char ((b mod 16) * 4 + c div 64), b64_char (c mod 64)] @ enc_groups rest"
| "enc_groups [a, b] =
     [b64_char (a div 4), b64_char ((a mod 4) * 16 + b div 16),
      b64_char ((b mod 16) * 4), CHR ''='']"
| "enc_groups [a] =
     [b64_char (a div 4), b64_char ((a mod 4) * 16), CHR ''='', CHR ''='']"
| "enc_groups [] = []"

text \<open>\<^verbatim>\<open>window.btoa\<close>. It throws on a code unit above 255, which \<^typ>\<open>string\<close> does not
  contain.\<close>

definition btoa :: "string \<Rightarrow> string" where
  "btoa s = enc_groups (map of_char s)"

text \<open>\<^verbatim>\<open>window.atob\<close>, the forgiving decoder of the HTML standard: ASCII whitespace is
  dropped, one or two closing \<^verbatim>\<open>=\<close> are dropped when the length is a multiple of four,
  a length of 1 modulo 4 or a character outside the alphabet is an
  \<^verbatim>\<open>InvalidCharacterError\<close>, and an incomplete last group gives one or two bytes.\<close>

definition is_ascii_whitespace :: "char \<Rightarrow> bool" where
  "is_ascii_whitespace c = (of_char c \<in> {9, 10, 12, 13, 32 :: nat})"

definition strip_padding :: "string \<Rightarrow> string" where
  "strip_padding d =
     (let n = length d in
      if n mod 4 = 0 \<and> 2 \<le> n \<and> drop (n - 2) d = ''=='' then take (n - 2) d
      else if n mod 4 = 0 \<and> 1 \<le> n \<and> drop (n - 1) d = ''='' then take (n - 1) d
      else d)"

fun dec_sextets :: "nat list \<Rightarrow> nat list" where
  "dec_sextets (s1 # s2 # s3 # s4 # rest) =
     [s1 * 4 + s2 div 16, (s2 mod 16) * 16 + s3 div 4, (s3 mod 4) * 64 + s4] @ dec_sextets rest"
| "dec_sextets [s1, s2, s3] = [s1 * 4 + s2 div 16, (s2 mod 16) * 16 + s3 div 4]"
| "dec_sextets [s1, s2] = [s1 * 4 + s2 div 16]"
| "dec_sextets [s1] = []"
| "dec_sextets [] = []"

definition InvalidCharacterError :: js_error where
  "InvalidCharacterError =
     JsError ''InvalidCharacterError'' ''The string to be decoded is not correctly encoded.''"

definition atob :: "string \<Rightarrow> js_error + string" where
  "atob data =
     (let d = strip_padding (filter (\<lambda>c. \<not> is_ascii_whitespace c) data) in
      if length d mod 4 = 1 then Inl InvalidCharacterError
      else case those (map b64_index d) of
             None \<Rightarrow> Inl InvalidCharacterError
           | Some sextets \<Rightarrow> Inr (map char_of (dec_sextets sextets)))"

subsection \<open>The encoding helpers of \<^verbatim>\<open>BiometricManager\<close>\<close>

text \<open>\<^verbatim>\<open>_arrayBufferToBase64\<close>: the loop appends one character per byte, then \<^verbatim>\<open>btoa\<close>.\<close>

definition arrayBufferToBase64 :: "byte list \<Rightarrow> string" where
  "arrayBufferToBase64 buffer =
     btoa (foldl (\<lambda>binary b. binary @ [fromCharCode b]) [] buffer)"

text \<open>\<^verbatim>\<open>_base64ToArrayBuffer\<close>: \<^verbatim>\<open>atob\<close>, then the loop fills a zeroed array of the
  length of the decoded string.\<close>

definition base64ToArrayBuffer :: "string \<Rightarrow> js_error + byte list" where
  "base64ToArrayBuffer base64 =
     (case atob base64 of
        Inl e \<Rightarrow> Inl e
      | Inr binary \<Rightarrow>
          Inr (foldl (\<lambda>bytes i. bytes[i := charCodeAt binary i])
                 (replicate (length binary) 0) [0..<length binary]))"

text \<open>\<^verbatim>\<open>_base64UrlToBase64\<close>: \<^verbatim>\<open>-\<close> becomes \<^verbatim>\<open>+\<close>, \<^verbatim>\<open>_\<close> becomes \<^verbatim>\<open>/\<close>, and the
  string is padded with \<^verbatim>\<open>=\<close> to a multiple of four.\<close>

definition base64UrlToBase64 :: "string \<Rightarrow> string" where
  "base64UrlToBase64 base64url =
     (let base64 = map (\<lambda>c. if c = CHR ''_'' then CHR ''/'' else c)
                     (map (\<lambda>c. if c = CHR ''-'' then CHR ''+'' else c) base64url);
          pad = length base64 mod 4
      in if pad \<noteq> 0 then base64 @ replicate (4 - pad) (CHR ''='') else base64)"

definition base64UrlToArrayBuffer :: "string \<Rightarrow> js_error + byte list" where
  "base64UrlToArrayBuffer base64url = base64ToArrayBuffer (base64UrlToBase64 base64url)"

text \<open>\<^verbatim>\<open>_stringToArrayBuffer\<close>: \<^verbatim>\<open>TextEncoder\<close> writes UTF-8, one byte below 128 and two
  bytes from 128 to 255.\<close>

definition utf8_of_char :: "char \<Rightarrow> byte list" where
  "utf8_of_char c =
     (let n = of_char c :: nat in
      if n < 128 then [word_of_nat n]
      else [word_of_nat (192 + n div 64), word_of_nat (128 + n mod 64)])"

definition stringToArrayBuffer :: "string \<Rightarrow> byte list" where
  "stringToArrayBuffer str = concat (map utf8_of_char str)"

section \<open>SHA-256\<close>

text \<open>\<^verbatim>\<open>crypto.subtle.digest('SHA-256', data)\<close>, the hash function of FIPS 180-4: the
  message is padded to whole 64-byte blocks, each block is expanded to 64 words and run
  through 64 rounds, and the eight state words are written out big-endian.\<close>

definition rotr :: "nat \<Rightarrow> u32 \<Rightarrow> u32" where
  "rotr n x = (drop_bit n x) OR (push_bit (32 - n) x)"

definition Ch :: "u32 \<Rightarrow> u32 \<Rightarrow> u32 \<Rightarrow> u32" where
  "Ch x y z = (x AND y) XOR (NOT x AND z)"

definition Maj :: "u32 \<Rightarrow> u32 \<Rightarrow> u32 \<Rightarrow> u32" where
  "Maj x y z = (x AND y) XOR (x AND z) XOR (y AND z)"

definition bsig0 :: "u32 \<Rightarrow> u32" where "bsig0 x = rotr 2 x XOR rotr 13 x XOR rotr 22 x"
definition bsig1 :: "u32 \<Rightarrow> u32" where "bsig1 x = rotr 6 x XOR rotr 11 x XOR rotr 25 x"
definition ssig0 :: "u32 \<Rightarrow> u32" where "ssig0 x = rotr 7 x XOR rotr 18 x XOR drop_bit 3 x"
definition ssig1 :: "u32 \<Rightarrow> u32" where "ssig1 x = rotr 17 x XOR rotr 19 x XOR drop_bit 10 x"

text \<open>The 64 round constants and the 8 initial state words of the standard, in decimal.\<close>

definition sha256_K :: "u32 list" where
  "sha256_K =
   [1116352408, 1899447441, 3049323471, 3921009573, 961987163, 1508970993,
    2453635748, 2870763221, 3624381080, 310598401, 607225278, 1426881987,
    1925078388, 2162078206, 2614888103, 3248222580, 3835390401, 4022224774,
    264347078, 604807628, 770255983, 1249150122, 1555081692, 1996064986,
    2554220882, 2821834349, 2952996808, 3210313671, 3336571891, 3584528711,
    113926993, 338241895, 666307205, 773529912, 1294757372, 1396182291,
    1695183700, 1986661051, 2177026350, 2456956037, 2730485921, 2820302411,
    3259730800, 3345764771, 3516065817, 3600352804, 4094571909, 275423344,
    430227734, 506948616, 659060556, 883997877, 958139571, 1322822218,
    1537002063, 1747873779, 1955562222, 2024104815, 2227730452, 2361852424,
    2428436474, 2756734187, 3204031479, 3329325298]"

definition sha256_H0 :: "u32 list" where
  "sha256_H0 = [1779033703, 3144134277, 1013904242, 2773480762,
                1359893119, 2600822924, 528734635, 1541459225]"

definition be32 :: "byte \<Rightarrow> byte \<Rightarrow> byte \<Rightarrow> byte \<Rightarrow> u32" where
  "be32 a b c d = push_bit 24 (ucast a) OR push_bit 16 (ucast b) OR push_bit 8 (ucast c) OR ucast d"

fun words_of :: "byte list \<Rightarrow> u32 list" where
  "words_of (a # b # c # d # rest) = be32 a b c d # words_of rest"
| "words_of _ = []"

definition bytes_of_u32 :: "u32 \<Rightarrow> byte list" where
  "bytes_of_u32 w = [ucast (drop_bit 24 w), ucast (drop_bit 16 w), ucast (drop_bit 8 w), ucast w]"

definition bytes_of_len :: "nat \<Rightarrow> byte list" where
  "bytes_of_len n = map (\<lambda>i. ucast (drop_bit (8 * i) (word_of_nat n :: 64 word))) (rev [0..<8])"

definition sha256_pad :: "byte list \<Rightarrow> byte list" where
  "sha256_pad m =
     m @ [0x80] @ replicate ((119 - length m mod 64) mod 64) 0 @ bytes_of_len (8 * length m)"

fun schedule :: "nat \<Rightarrow> u32 list \<Rightarrow> u32 list" where
  "schedule 0 ws = ws"
| "schedule (Suc n) ws =
     schedule n ((ssig1 (ws ! 1) + ws ! 6 + ssig0 (ws ! 14) + ws ! 15) # ws)"

fun round_step :: "u32 list \<Rightarrow> (u32 \<times> u32) \<Rightarrow> u32 list" where
  "round_step [a, b, c, d, e, f, g, h] (k, w) =
     (let t1 = h + bsig1 e + Ch e f g + k + w;
          t2 = bsig0 a + Maj a b c
      in [t1 + t2, a, b, c, d + t1, e, f, g])"
| "round_step s _ = s"

definition compress :: "u32 list \<Rightarrow> byte list \<Rightarrow> u32 list" where
  "compress hs block =
     (let w = rev (schedule 48 (rev (words_of block)))
      in map2 (+) hs (foldl round_step hs (zip sha256_K w)))"

fun blocks_of :: "nat \<Rightarrow> byte list \<Rightarrow> byte list list" where
  "blocks_of 0 m = []"
| "blocks_of (Suc n) m = take 64 m # blocks_of n (drop 64 m)"

definition sha256 :: "byte list \<Rightarrow> byte list" where
  "sha256 m =
     (let p = sha256_pad m
      in concat (map bytes_of_u32 (foldl compress sha256_H0 (blocks_of (length p div 64) p))))"


section \<open>The browser\<close>

text \<open>An \<^verbatim>\<open>ethers.Wallet\<close>, and the plain object \<^verbatim>\<open>{address, privateKey, publicKey}\<close> that
  \<^verbatim>\<open>deriveEthereumWallet\<close> copies from it.\<close>

record wallet =
  address :: string
  privateKey :: string
  publicKey :: string

text \<open>The \<^verbatim>\<open>ethers\<close> library (version 5.7.2, loaded from a script tag): the constructor
  \<^verbatim>\<open>new ethers.Wallet(privateKeyHex)\<close>, which throws on a key it does not accept.\<close>

record ethers_lib =
  Wallet :: "string \<Rightarrow> js_error + wallet"

text \<open>JSON values, as \<^verbatim>\<open>response.json()\<close> returns them and as the object literals
  handed to \<^verbatim>\<open>JSON.stringify\<close> denote them. Numbers are integers here, written as in the
  text of the reply: the double such a numeral is read as is \<open>to_double\<close> of it, below.\<close>

datatype json = JNull | JBool bool | JNum int | JStr string | JArr "json list"
  | JObj "(string \<times> json) list"

record request =
  req_method :: string
  req_url :: string
  req_body :: "json option"

record response =
  ok :: bool
  json_body :: "js_error + json"

text \<open>The options of \<^verbatim>\<open>navigator.credentials.create\<close> and \<^verbatim>\<open>navigator.credentials.get\<close>,
  the credential and the assertion they resolve to. \<open>getPublicKey\<close> is \<open>None\<close> when the
  response has no such method, \<open>Some None\<close> when the method returns \<^verbatim>\<open>null\<close>.\<close>

record creation_options =
  co_challenge :: "byte list"
  co_rp_name :: string
  co_rp_id :: string
  co_user_id :: "byte list"
  co_user_name :: string
  co_user_displayName :: string
  co_alg :: int
  co_authenticatorAttachment :: string
  co_userVerification :: string
  co_residentKey :: "string option"
  co_timeout :: nat
  co_attestation :: string

record credential =
  cred_id :: string
  cred_rawId :: "byte list"
  getPublicKey :: "byte list option option"

record request_options =
  ro_challenge :: "byte list"
  ro_allowCredentials :: "byte list list"
  ro_userVerification :: string
  ro_timeout :: nat

record assertion =
  as_id :: string
  as_signature :: "byte list"

text \<open>\<^verbatim>\<open>window.ethereum\<close>, the wallet extension: \<^verbatim>\<open>personal_sign\<close> of a message by an
  address, and \<^verbatim>\<open>eth_accounts\<close>.\<close>

record ethereum_provider =
  personal_sign :: "string \<Rightarrow> string \<Rightarrow> js_error + string"
  eth_accounts :: "js_error + string list"

text \<open>What a run does to the outside, in order.\<close>

datatype event =
    Fetch request
  | CredentialsCreate creation_options
  | CredentialsGet request_options
  | PersonalSign string string
  | EthAccounts
  | Status string

text \<open>The page a script runs in. \<open>ethers\<close> is \<open>None\<close> when \<^verbatim>\<open>typeof ethers\<close> is
  \<^verbatim>\<open>'undefined'\<close>; \<open>isUVPAA\<close> is the outcome of
  \<^verbatim>\<open>PublicKeyCredential.isUserVerifyingPlatformAuthenticatorAvailable()\<close>; \<open>random\<close> is the
  sequence \<^verbatim>\<open>crypto.getRandomValues\<close> draws from and \<open>random_pos\<close> how much of it is used;
  \<open>localStorage\<close> outlives the session, \<open>sessionStorage\<close> does not; \<open>events\<close> is the trace.
  The status callback of the login page receives an icon, a title and a message; the trace
  keeps the title and the message.\<close>

record browser =
  ethers :: "ethers_lib option"
  hasPublicKeyCredential :: bool
  isUVPAA :: "js_error + bool"
  ethereum :: "ethereum_provider option"
  hostname :: string
  userAgent :: string
  random :: "nat \<Rightarrow> byte"
  random_pos :: nat
  credentials_create :: "creation_options \<Rightarrow> js_error + credential"
  credentials_get :: "request_options \<Rightarrow> js_error + assertion"
  fetch :: "request \<Rightarrow> js_error + response"
  localStorage :: "string \<rightharpoonup> string"
  sessionStorage :: "string \<rightharpoonup> string"
  events :: "event list"

section \<open>Running a script in a browser\<close>

text \<open>An asynchronous function is a function from the browser it starts in to its outcome
  (\<open>Inl\<close> when the promise rejects) and the browser it leaves. \<open>and_then\<close> is
  \<^verbatim>\<open>await\<close> followed by the rest of the body, \<open>try_catch\<close> is \<^verbatim>\<open>try { } catch (error) { }\<close>.\<close>

type_synonym 'a io = "browser \<Rightarrow> (js_error + 'a) \<times> browser"

definition resolve :: "'a \<Rightarrow> 'a io" where
  "resolve x w = (Inr x, w)"

definition throw :: "js_error \<Rightarrow> 'a io" where
  "throw e w = (Inl e, w)"

definition settle :: "js_error + 'a \<Rightarrow> 'a io" where
  "settle r w = (r, w)"

definition and_then :: "'a io \<Rightarrow> ('a \<Rightarrow> 'b io) \<Rightarrow> 'b io" where
  "and_then m f w = (case m w of (Inl e, w') \<Rightarrow> (Inl e, w') | (Inr x, w') \<Rightarrow> f x w')"

definition try_catch :: "'a io \<Rightarrow> (js_error \<Rightarrow> 'a io) \<Rightarrow> 'a io" where
  "try_catch m handler w = (case m w of (Inl e, w') \<Rightarrow> handler e w' | (Inr x, w') \<Rightarrow> (Inr x, w'))"

text \<open>Reading a global of the page, such as \<^verbatim>\<open>window.ethereum\<close>.\<close>

definition reading :: "(browser \<Rightarrow> 'a) \<Rightarrow> 'a io" where
  "reading field w = (Inr (field w), w)"

definition emit :: "event \<Rightarrow> browser \<Rightarrow> browser" where
  "emit ev w = w\<lparr>events := events w @ [ev]\<rparr>"

text \<open>The platform calls. Each one that reaches outside the page leaves an event.\<close>

definition doFetch :: "request \<Rightarrow> response io" where
  "doFetch req w = (fetch w req, emit (Fetch req) w)"

definition responseJson :: "response \<Rightarrow> json io" where
  "responseJson r = settle (json_body r)"

definition getRandomValues :: "nat \<Rightarrow> (byte list) io" where
  "getRandomValues n w =
     (Inr (map (random w) [random_pos w ..< random_pos w + n]),
      w\<lparr>random_pos := random_pos w + n\<rparr>)"

definition credentialsCreate :: "creation_options \<Rightarrow> credential io" where
  "credentialsCreate options w = (credentials_create w options, emit (CredentialsCreate options) w)"

definition credentialsGet :: "request_options \<Rightarrow> assertion io" where
  "credentialsGet options w = (credentials_get w options, emit (CredentialsGet options) w)"

definition requestAccounts :: "ethereum_provider \<Rightarrow> (string list) io" where
  "requestAccounts provider w = (eth_accounts provider, emit EthAccounts w)"

definition personalSign :: "ethereum_provider \<Rightarrow> string \<Rightarrow> string \<Rightarrow> string io" where
  "personalSign provider message account w =
     (personal_sign provider message account, emit (PersonalSign message account) w)"

definition statusCallback :: "string \<Rightarrow> unit io" where
  "statusCallback title w = (Inr (), emit (Status title) w)"

definition localStorage_setItem :: "string \<Rightarrow> string \<Rightarrow> unit io" where
  "localStorage_setItem key v w = (Inr (), w\<lparr>localStorage := (localStorage w)(key \<mapsto> v)\<rparr>)"

definition localStorage_getItem :: "string \<Rightarrow> (string option) io" where
  "localStorage_getItem key w = (Inr (localStorage w key), w)"

definition sessionStorage_setItem :: "string \<Rightarrow> string \<Rightarrow> unit io" where
  "sessionStorage_setItem key v w = (Inr (), w\<lparr>sessionStorage := (sessionStorage w)(key \<mapsto> v)\<rparr>)"

definition sessionStorage_getItem :: "string \<Rightarrow> (string option) io" where
  "sessionStorage_getItem key w = (Inr (sessionStorage w key), w)"

text \<open>The end of the session: the tab closes and the browser discards its
  \<^verbatim>\<open>sessionStorage\<close>.\<close>

definition endSession :: "browser \<Rightarrow> browser" where
  "endSession w = w\<lparr>sessionStorage := Map.empty\<rparr>"

subsection \<open>JSON values in expressions\<close>

text \<open>\<^verbatim>\<open>value.key\<close>: a \<^verbatim>\<open>TypeError\<close> on \<^verbatim>\<open>null\<close>, the member of an object (the last one
  of that name), \<^verbatim>\<open>undefined\<close> (\<open>None\<close>) otherwise. The keys the scripts read are not
  properties of strings, numbers, booleans or arrays.\<close>

definition get_prop :: "json \<Rightarrow> string \<Rightarrow> js_error + json option" where
  "get_prop v key =
     (case v of
        JNull \<Rightarrow> Inl (JsError ''TypeError''
                   (''Cannot read properties of null (reading '' @ [CHR 0x27] @ key @ [CHR 0x27] @ '')''))
      | JObj members \<Rightarrow> Inr (map_of (rev members) key)
      | _ \<Rightarrow> Inr None)"

text \<open>Truthiness, and \<^verbatim>\<open>value || 'default'\<close>.\<close>

fun truthy :: "json option \<Rightarrow> bool" where
  "truthy None = False"
| "truthy (Some JNull) = False"
| "truthy (Some (JBool b)) = b"
| "truthy (Some (JNum n)) = (n \<noteq> 0)"
| "truthy (Some (JStr s)) = (s \<noteq> [])"
| "truthy (Some (JArr xs)) = True"
| "truthy (Some (JObj members)) = True"

definition or_default :: "json option \<Rightarrow> string \<Rightarrow> json" where
  "or_default v d = (case v of None \<Rightarrow> JStr d | Some x \<Rightarrow> if truthy v then x else JStr d)"

text \<open>\<^verbatim>\<open>String(number)\<close> for an integer. \<^verbatim>\<open>JSON.parse\<close> reads a numeral as the double
  nearest to it, ties to the even significand, and as \<^verbatim>\<open>Infinity\<close> from
  \<^verbatim>\<open>2**1024 - 2**970\<close> on. The text of a double is the shortest string of digits \<open>s\<close>
  with an exponent \<open>n\<close> that reads back as the same double, the closest one when there are
  several: the digits followed by zeros when \<open>n\<close> is at most 21, the exponent form
  \<^verbatim>\<open>d.ddde+x\<close> beyond.\<close>

function digits10 :: "int \<Rightarrow> string" where
  "digits10 n =
     (if n < 10 then [''0123456789'' ! nat n]
      else digits10 (n div 10) @ [''0123456789'' ! nat (n mod 10)])"
  by pat_completeness auto
termination by (relation "measure nat") auto

declare digits10.simps [simp del]

function bit_length :: "int \<Rightarrow> nat" where
  "bit_length n = (if n \<le> 0 then 0 else Suc (bit_length (n div 2)))"
  by pat_completeness auto
termination by (relation "measure nat") auto

declare bit_length.simps [simp del]

definition to_double :: "int \<Rightarrow> int" where
  "to_double m =
     (let e = bit_length m - 53 in
      if e = 0 then m
      else let q = m div 2 ^ e; r = m mod 2 ^ e; half = 2 ^ (e - 1)
           in (if half < r \<or> (r = half \<and> odd q) then q + 1 else q) * 2 ^ e)"

text \<open>The digits \<open>s\<close> of length \<open>k\<close> for a double \<open>m\<close> of \<open>n\<close> decimal digits, when
  \<open>s * 10 ^ (n - k)\<close> reads back as \<open>m\<close>: the two neighbours of \<open>m\<close> are tried, and the
  closer one wins, the even one when they are equally close.\<close>

definition candidate :: "int \<Rightarrow> nat \<Rightarrow> nat \<Rightarrow> int option" where
  "candidate m n k =
     (let p = 10 ^ (n - k); lo = m div p; hi = lo + 1;
          lo_ok = (to_double (lo * p) = m);
          hi_ok = (hi < 10 ^ k \<and> to_double (hi * p) = m)
      in if lo_ok \<and> hi_ok
         then (if m - lo * p < hi * p - m then Some lo
               else if hi * p - m < m - lo * p then Some hi
               else if even lo then Some lo else Some hi)
         else if lo_ok then Some lo
         else if hi_ok then Some hi
         else None)"

fun shortest :: "int \<Rightarrow> nat \<Rightarrow> nat list \<Rightarrow> nat \<times> int" where
  "shortest m n [] = (n, m)"
| "shortest m n (k # ks) = (case candidate m n k of Some s \<Rightarrow> (k, s) | None \<Rightarrow> shortest m n ks)"

definition number_toString :: "int \<Rightarrow> string" where
  "number_toString m =
     (let digits = length (digits10 m);
          (n, k, s) = (if to_double (10 ^ digits) = m then (Suc digits, 1, 1)
                       else case shortest m digits [1 ..< Suc (min digits 17)] of
                              (k, s) \<Rightarrow> (digits, k, s))
      in if n \<le> 21 then digits10 s @ replicate (n - k) (CHR ''0'')
         else (if k = 1 then digits10 s else take 1 (digits10 s) @ ''.'' @ drop 1 (digits10 s)) @
              ''e+'' @ digits10 (int n - 1))"

definition int_toString :: "int \<Rightarrow> string" where
  "int_toString i =
     (let m = to_double (abs i);
          printed = (if 2 ^ 1024 \<le> m then ''Infinity'' else number_toString m)
      in if i < 0 then ''-'' @ printed else printed)"

text \<open>\<^verbatim>\<open>String(value)\<close>, which \<^verbatim>\<open>new Error(value)\<close> and \<^verbatim>\<open>atob(value)\<close> apply.\<close>

fun js_toString :: "json \<Rightarrow> string" and js_join :: "json list \<Rightarrow> string" where
  "js_toString JNull = ''null''"
| "js_toString (JBool b) = (if b then ''true'' else ''false'')"
| "js_toString (JNum n) = int_toString n"
| "js_toString (JStr s) = s"
| "js_toString (JArr xs) = js_join xs"
| "js_toString (JObj members) = ''[object Object]''"
| "js_join [] = []"
| "js_join [x] = (if x = JNull then [] else js_toString x)"
| "js_join (x # y # ys) = (if x = JNull then [] else js_toString x) @ '','' @ js_join (y # ys)"

definition js_toString_opt :: "json option \<Rightarrow> string" where
  "js_toString_opt v = (case v of None \<Rightarrow> ''undefined'' | Some x \<Rightarrow> js_toString x)"

text \<open>\<^verbatim>\<open>JSON.stringify({...})\<close> of an object literal: a member whose value is
  \<^verbatim>\<open>undefined\<close> is left out. The request keeps the JSON value, not its text.\<close>

definition stringify :: "(string \<times> json option) list \<Rightarrow> json" where
  "stringify members =
     JObj (concat (map (\<lambda>(k, v). case v of None \<Rightarrow> [] | Some x \<Rightarrow> [(k, x)]) members))"

definition json_of_bytes :: "byte list \<Rightarrow> json" where
  "json_of_bytes bytes = JArr (map (\<lambda>b. JNum (uint b)) bytes)"

text \<open>\<^verbatim>\<open>haystack.includes(needle)\<close>.\<close>

fun str_includes :: "string \<Rightarrow> string \<Rightarrow> bool" where
  "str_includes [] needle = (needle = [])"
| "str_includes (c # cs) needle = (take (length needle) (c # cs) = needle \<or> str_includes cs needle)"

text \<open>\<^verbatim>\<open>encodeURIComponent\<close>: letters, digits and \<^verbatim>\<open>- _ . ! ~ * ' ( )\<close> stay, every other
  character becomes the \<^verbatim>\<open>%XX\<close> of its UTF-8 bytes, in upper case.\<close>

definition uri_unreserved :: "char \<Rightarrow> bool" where
  "uri_unreserved c =
     (c \<in> set (''ABCDEFGHIJKLMNOPQRSTUVWXYZabcdefghijklmnopqrstuvwxyz0123456789-_.!~*()'' @ [CHR 0x27]))"

definition percent_byte :: "byte \<Rightarrow> string" where
  "percent_byte b = [CHR ''%'', ''0123456789ABCDEF'' ! (unat b div 16), ''0123456789ABCDEF'' ! (unat b mod 16)]"

definition encodeURIComponent :: "string \<Rightarrow> string" where
  "encodeURIComponent s =
     concat (map (\<lambda>c. if uri_unreserved c then [c] else concat (map percent_byte (utf8_of_char c))) s)"

section \<open>Key derivation\<close>

subsection \<open>The login page: a secp256k1 wallet from the P-256 public key\<close>

text \<open>\<^verbatim>\<open>ensureEthers\<close> throws when the library is not loaded; here it also hands the
  library it found to its caller.\<close>

definition ensureEthers :: "ethers_lib io" where
  "ensureEthers =
     and_then (reading ethers) (\<lambda>loaded.
       case loaded of
         None \<Rightarrow> throw (Error (''ethers.js not loaded. Add: <script src='' @ [CHR 0x22] @
                   ''https://cdn.ethers.io/lib/ethers-5.7.2.umd.min.js'' @ [CHR 0x22] @
                   ''></script>''))
       | Some lib \<Rightarrow> resolve lib)"

text \<open>\<^verbatim>\<open>deriveSecp256k1Wallet\<close>: the digest of the whole key is the private key.\<close>

definition deriveSecp256k1Wallet :: "byte list \<Rightarrow> wallet io" where
  "deriveSecp256k1Wallet p256PubKey =
     and_then ensureEthers (\<lambda>lib.
       let entropy = sha256 p256PubKey;
           privateKeyBytes = entropy;
           privateKeyHex = ''0x'' @ bytesToHex privateKeyBytes
       in settle (Wallet lib privateKeyHex))"

text \<open>\<^verbatim>\<open>deriveEthereumWallet\<close>.\<close>

definition deriveEthereumWallet :: "byte list \<Rightarrow> wallet io" where
  "deriveEthereumWallet p256PubKey =
     and_then (deriveSecp256k1Wallet p256PubKey) (\<lambda>wallet.
       resolve \<lparr>address = address wallet, privateKey = privateKey wallet,
                publicKey = publicKey wallet\<rparr>)"

subsection \<open>The older script: an address cut from the digest\<close>

text \<open>\<^verbatim>\<open>keccak256\<close> of that script is SHA-256 in hexadecimal.\<close>

definition keccak256 :: "byte list \<Rightarrow> string" where
  "keccak256 data = bytesToHex (sha256 data)"

text \<open>\<^verbatim>\<open>deriveEthereumAddress\<close>: the coordinates are bytes 1 to 64 of the key, copied into
  a zeroed 64-byte array. The function reads and changes nothing of the page, so it is a
  function of the key alone.\<close>

definition deriveEthereumAddress :: "byte list \<Rightarrow> js_error + string" where
  "deriveEthereumAddress pubKey =
     (let qx = u8_slice 1 33 pubKey;
          qy = u8_slice 33 65 pubKey
      in case u8_set qx 0 (replicate 64 0) of
           Inl e \<Rightarrow> Inl e
         | Inr combined \<Rightarrow>
             (case u8_set qy 32 combined of
                Inl e \<Rightarrow> Inl e
              | Inr combined \<Rightarrow>
                  (let hash = keccak256 combined in Inr (''0x'' @ take 40 hash))))"

subsection \<open>Well-formed public keys\<close>

text \<open>Modelled from the spec: the scripts have no check of the key they derive from. A
  well-formed public key of the registration curve is the uncompressed encoding
  \<^verbatim>\<open>0x04 || x || y\<close> of a point of P-256: 65 bytes, both coordinates below the field
  prime, and \<open>y\<^sup>2 = x\<^sup>3 - 3 x + b\<close> modulo the prime. The all-zero coordinates are
  not on the curve.\<close>

definition p256_prime :: int where
  "p256_prime = 2 ^ 256 - 2 ^ 224 + 2 ^ 192 + 2 ^ 96 - 1"

definition p256_b :: int where
  "p256_b = 0x5AC635D8AA3A93E7B3EBBD55769886BC651D06B0CC53B0F63BCE3C3E27D2604B"

definition be_int :: "byte list \<Rightarrow> int" where
  "be_int bytes = foldl (\<lambda>acc b. acc * 256 + uint b) 0 bytes"

definition wellFormedPublicKey :: "byte list \<Rightarrow> bool" where
  "wellFormedPublicKey k =
     (length k = 65 \<and> take 1 k = [4] \<and>
      (let x = be_int (take 32 (drop 1 k)); y = be_int (drop 33 k)
       in x < p256_prime \<and> y < p256_prime \<and>
          (y * y - (x * x * x - 3 * x + p256_b)) mod p256_prime = 0))"

text \<open>The base point of P-256, the public key of the private key 1.\<close>

definition p256_generator :: "byte list" where
  "p256_generator =
     [4,
      107, 23, 209, 242, 225, 44, 66, 71, 248, 188, 230, 229, 99, 164, 64, 242,
      119, 3, 125, 129, 45, 235, 51, 160, 244, 161, 57, 69, 216, 152, 194, 150,
      79, 227, 66, 226, 254, 26, 127, 155, 142, 231, 235, 74, 124, 15, 158, 22,
      43, 206, 51, 87, 107, 49, 94, 206, 203, 182, 64, 104, 55, 191, 81, 245]"

section \<open>The login page: creating, registering and storing a biometric wallet\<close>

text \<open>What \<^verbatim>\<open>createBiometricWallet\<close> returns: the derived wallet and, under the names
  \<^verbatim>\<open>credentialId\<close>, \<^verbatim>\<open>p256PubKey\<close> and \<^verbatim>\<open>rawId\<close> in the script, the credential id,
  the P-256 public key and the raw id.\<close>

record walletData = wallet +
  wd_credentialId :: string
  wd_p256PubKey :: "byte list"
  wd_rawId :: "byte list"

text \<open>\<^verbatim>\<open>new Uint8Array(credential.response.getPublicKey())\<close>: a \<^verbatim>\<open>TypeError\<close> without the
  method, the empty array for \<^verbatim>\<open>null\<close>.\<close>

definition callGetPublicKey :: "credential \<Rightarrow> js_error + byte list" where
  "callGetPublicKey c =
     (case getPublicKey c of
        None \<Rightarrow> Inl (JsError ''TypeError'' ''credential.response.getPublicKey is not a function'')
      | Some None \<Rightarrow> Inr []
      | Some (Some bytes) \<Rightarrow> Inr bytes)"

text \<open>\<^verbatim>\<open>createBiometricWallet\<close>. The \<^verbatim>\<open>catch\<close> logs to the console and throws the error
  again.\<close>

definition createBiometricWallet :: "walletData io" where
  "createBiometricWallet =
     and_then (reading hasPublicKeyCredential) (\<lambda>supported.
       if \<not> supported then throw (Error ''Biometrics not supported on this device'')
       else
     and_then ensureEthers (\<lambda>_.
     and_then (statusCallback ''Initializing...'') (\<lambda>_.
     and_then (getRandomValues 32) (\<lambda>challenge.
     and_then (reading hostname) (\<lambda>host.
     and_then (getRandomValues 16) (\<lambda>user_id.
       let publicKeyCredentialCreationOptions =
             \<lparr>co_challenge = challenge,
              co_rp_name = ''Blockchain AEM'',
              co_rp_id = host,
              co_user_id = user_id,
              co_user_name = ''author@blockchain-aem.local'',
              co_user_displayName = ''AEM Author'',
              co_alg = - 7,
              co_authenticatorAttachment = ''platform'',
              co_userVerification = ''required'',
              co_residentKey = None,
              co_timeout = 60000,
              co_attestation = ''direct''\<rparr>
       in try_catch
            (and_then (statusCallback ''Scan Biometric'') (\<lambda>_.
             and_then (credentialsCreate publicKeyCredentialCreationOptions) (\<lambda>credential.
             and_then (statusCallback ''Generating Wallet...'') (\<lambda>_.
             and_then (settle (callGetPublicKey credential)) (\<lambda>p256PubKey.
             and_then (deriveEthereumWallet p256PubKey) (\<lambda>ethWallet.
               resolve
                 \<lparr>address = address ethWallet,
                  privateKey = privateKey ethWallet,
                  publicKey = publicKey ethWallet,
                  wd_credentialId = cred_id credential,
                  wd_p256PubKey = p256PubKey,
                  wd_rawId = cred_rawId credential\<rparr>))))))
            (\<lambda>error. throw error)))))))"

text \<open>\<^verbatim>\<open>registerBiometricWallet\<close>: the body has the address, the credential id, both public
  keys and the raw id.\<close>

definition registerRequest :: "walletData \<Rightarrow> request" where
  "registerRequest walletData =
     \<lparr>req_method = ''POST'',
      req_url = ''/bin/blockchain-aem/biometric-register'',
      req_body = Some (stringify
        [(''address'', Some (JStr (address walletData))),
         (''credentialId'', Some (JStr (wd_credentialId walletData))),
         (''p256PubKey'', Some (json_of_bytes (wd_p256PubKey walletData))),
         (''secp256k1PubKey'', Some (JStr (publicKey walletData))),
         (''rawId'', Some (json_of_bytes (wd_rawId walletData)))])\<rparr>"

definition registerBiometricWallet :: "walletData \<Rightarrow> json io" where
  "registerBiometricWallet walletData =
     and_then (statusCallback ''Registering...'') (\<lambda>_.
     try_catch
       (and_then (doFetch (registerRequest walletData)) (\<lambda>response.
          if \<not> ok response
          then and_then (responseJson response) (\<lambda>error.
               and_then (settle (get_prop error ''message'')) (\<lambda>message.
                 throw (Error (js_toString (or_default message ''Registration failed'')))))
          else and_then (responseJson response) (\<lambda>result. resolve result)))
       (\<lambda>error. throw error))"

text \<open>What \<^verbatim>\<open>setupBiometricWallet\<close> returns.\<close>

record setup_result =
  sr_address :: string
  sr_privateKey :: string
  sr_credentialId :: string

text \<open>The \<^verbatim>\<open>catch\<close> block of \<^verbatim>\<open>setupBiometricWallet\<close>: it reports the failure to the
  status callback, by the name of the error or by the word \<^verbatim>\<open>ethers\<close> in its message,
  and throws the error again.\<close>

definition setupFailed :: "js_error \<Rightarrow> 'a io" where
  "setupFailed error =
     and_then
       (if err_name error = ''NotAllowedError'' then statusCallback ''Registration Cancelled''
        else if err_name error = ''NotSupportedError'' then statusCallback ''Not Supported''
        else if err_message error \<noteq> [] \<and> str_includes (err_message error) ''ethers''
          then statusCallback ''Missing Dependency''
        else statusCallback ''Registration Failed'')
       (\<lambda>_. throw error)"

text \<open>\<^verbatim>\<open>setupBiometricWallet\<close>: create, register, then store. The address, the credential
  id and the two public keys go to \<^verbatim>\<open>localStorage\<close>, the private key to
  \<^verbatim>\<open>sessionStorage\<close>.\<close>

definition setupBiometricWallet :: "setup_result io" where
  "setupBiometricWallet =
     try_catch
       (and_then createBiometricWallet (\<lambda>walletData.
        and_then (registerBiometricWallet walletData) (\<lambda>registrationResult.
        and_then (localStorage_setItem ''blockchain_aem_wallet_address'' (address walletData)) (\<lambda>_.
        and_then (localStorage_setItem ''blockchain_aem_credential_id'' (wd_credentialId walletData)) (\<lambda>_.
          let p256PubKeyBase64 = btoa (map fromCharCode (wd_p256PubKey walletData)) in
        and_then (localStorage_setItem ''blockchain_aem_p256_pubkey'' p256PubKeyBase64) (\<lambda>_.
        and_then (localStorage_setItem ''blockchain_aem_secp256k1_pubkey'' (publicKey walletData)) (\<lambda>_.
        and_then (sessionStorage_setItem ''blockchain_aem_private_key'' (privateKey walletData)) (\<lambda>_.
        and_then (statusCallback ''Wallet Created!'') (\<lambda>_.
          resolve
            \<lparr>sr_address = address walletData,
             sr_privateKey = privateKey walletData,
             sr_credentialId = wd_credentialId walletData\<rparr>)))))))))
       (\<lambda>error. setupFailed error)"

text \<open>\<^verbatim>\<open>getStoredWalletAddress\<close>, \<^verbatim>\<open>getPrivateKeyForExport\<close> and \<^verbatim>\<open>hasBiometricWallet\<close>;
  a stored empty string is falsy.\<close>

definition getStoredWalletAddress :: "browser \<Rightarrow> string option" where
  "getStoredWalletAddress w = localStorage w ''blockchain_aem_wallet_address''"

definition getPrivateKeyForExport :: "browser \<Rightarrow> string option" where
  "getPrivateKeyForExport w = sessionStorage w ''blockchain_aem_private_key''"

definition hasBiometricWallet :: "browser \<Rightarrow> bool" where
  "hasBiometricWallet w =
     (getStoredWalletAddress w \<notin> {None, Some []} \<and>
      localStorage w ''blockchain_aem_credential_id'' \<notin> {None, Some []})"

section \<open>\<^verbatim>\<open>BiometricManager\<close>\<close>

text \<open>The methods whose names begin with an underscore in the script are named here
  without it.\<close>

text \<open>\<^verbatim>\<open>isAvailable\<close>: never rejects; a failing platform query counts as unavailable.\<close>

definition isAvailable :: "bool io" where
  "isAvailable =
     and_then (reading hasPublicKeyCredential) (\<lambda>present.
       if \<not> present then resolve False
       else try_catch (and_then (reading isUVPAA) (\<lambda>available. settle available))
              (\<lambda>error. resolve False))"

text \<open>\<^verbatim>\<open>_extractPublicKey\<close>: the key the attestation response gives, or 65 zero bytes when
  it has no \<^verbatim>\<open>getPublicKey\<close>. \<^verbatim>\<open>_extractPublicKeyFromAssertion\<close>: always 65 zero bytes.\<close>

definition extractPublicKey :: "credential \<Rightarrow> byte list" where
  "extractPublicKey attestationResponse =
     (case getPublicKey attestationResponse of
        None \<Rightarrow> replicate 65 0
      | Some None \<Rightarrow> []
      | Some (Some bytes) \<Rightarrow> bytes)"

definition extractPublicKeyFromAssertion :: "assertion \<Rightarrow> byte list" where
  "extractPublicKeyFromAssertion assertionResponse = replicate 65 0"

text \<open>\<^verbatim>\<open>_storeCredentialId\<close> and \<^verbatim>\<open>_getStoredCredentialId\<close>.\<close>

definition storeCredentialId :: "string \<Rightarrow> string \<Rightarrow> unit io" where
  "storeCredentialId walletAddress credentialId =
     (let key = ''biometric_credential_'' @ walletAddress
      in localStorage_setItem key credentialId)"

definition getStoredCredentialId :: "string \<Rightarrow> (string option) io" where
  "getStoredCredentialId walletAddress =
     (let key = ''biometric_credential_'' @ walletAddress
      in localStorage_getItem key)"

text \<open>\<^verbatim>\<open>_getCurrentWalletAddress\<close>: the user id of the session when it begins with
  \<^verbatim>\<open>0x\<close>; every failure on that way is caught; then the first account of the wallet
  extension; then \<^verbatim>\<open>null\<close>.\<close>

definition sessionInfoRequest :: request where
  "sessionInfoRequest =
     \<lparr>req_method = ''GET'', req_url = ''/system/sling/info.sessionInfo.json'', req_body = None\<rparr>"

definition sessionUserId :: "(string option) io" where
  "sessionUserId =
     try_catch
       (and_then (doFetch sessionInfoRequest) (\<lambda>response.
          if ok response
          then and_then (responseJson response) (\<lambda>data.
               and_then (settle (get_prop data ''userID'')) (\<lambda>userId.
                 case userId of
                   Some (JStr s) \<Rightarrow>
                     if s \<noteq> [] \<and> take 2 s = ''0x'' then resolve (Some s) else resolve None
                 | _ \<Rightarrow>
                     if truthy userId
                     then throw (JsError ''TypeError'' ''userId.startsWith is not a function'')
                     else resolve None))
          else resolve None))
       (\<lambda>error. resolve None)"

definition getCurrentWalletAddress :: "(string option) io" where
  "getCurrentWalletAddress =
     and_then sessionUserId (\<lambda>userId.
       case userId of
         Some s \<Rightarrow> resolve (Some s)
       | None \<Rightarrow>
           and_then (reading ethereum) (\<lambda>extension.
             case extension of
               Some provider \<Rightarrow>
                 and_then (requestAccounts provider) (\<lambda>accounts.
                   resolve (case accounts of [] \<Rightarrow> None | a # _ \<Rightarrow> Some a))
             | None \<Rightarrow> resolve None))"

text \<open>What \<^verbatim>\<open>register\<close> returns.\<close>

record register_result =
  success :: bool
  rr_credentialId :: string
  rr_walletAddress :: string
  rr_deviceName :: "string option"

text \<open>\<^verbatim>\<open>register\<close>: a passkey for the wallet address, its public key signed by the wallet,
  the registration sent to the backend, and the credential id stored.\<close>

definition registrationOptions :: "string \<Rightarrow> byte list \<Rightarrow> string \<Rightarrow> creation_options" where
  "registrationOptions host challenge walletAddress =
     \<lparr>co_challenge = challenge,
      co_rp_name = ''Blockchain AEM'',
      co_rp_id = host,
      co_user_id = stringToArrayBuffer walletAddress,
      co_user_name = walletAddress,
      co_user_displayName = ''Wallet '' @ take 10 walletAddress @ ''...'',
      co_alg = - 7,
      co_authenticatorAttachment = ''platform'',
      co_userVerification = ''required'',
      co_residentKey = Some ''preferred'',
      co_timeout = 60000,
      co_attestation = ''none''\<rparr>"

definition registrationRequest ::
  "string \<Rightarrow> string \<Rightarrow> string \<Rightarrow> string \<Rightarrow> string option \<Rightarrow> string \<Rightarrow> request" where
  "registrationRequest agent walletAddress credentialId publicKeyBase64 deviceName walletSignature =
     \<lparr>req_method = ''POST'',
      req_url = ''/bin/blockchain-aem/register-biometric'',
      req_body = Some (stringify
        [(''walletAddress'', Some (JStr walletAddress)),
         (''credentialId'', Some (JStr credentialId)),
         (''publicKey'', Some (JStr publicKeyBase64)),
         (''deviceName'', Some (JStr (case deviceName of
                                        None \<Rightarrow> agent
                                      | Some d \<Rightarrow> if d \<noteq> [] then d else agent))),
         (''walletSignature'', Some (JStr walletSignature))])\<rparr>"

definition register :: "string \<Rightarrow> string option \<Rightarrow> register_result io" where
  "register walletAddress deviceName =
     and_then isAvailable (\<lambda>available.
       if \<not> available then throw (Error ''Biometric authentication not available'')
       else
     and_then (getRandomValues 32) (\<lambda>challenge.
     and_then (reading hostname) (\<lambda>host.
     and_then
       (try_catch (credentialsCreate (registrationOptions host challenge walletAddress))
          (\<lambda>error.
             if err_name error = ''NotAllowedError''
             then throw (Error ''User cancelled biometric registration'')
             else throw (Error (''Biometric registration failed: '' @ err_message error))))
       (\<lambda>credential.
       let publicKeyBytes = extractPublicKey credential;
           publicKeyBase64 = arrayBufferToBase64 publicKeyBytes;
           registrationMessage =
             ''Register biometric:'' @ walletAddress @ '':'' @ cred_id credential @ '':'' @
             publicKeyBase64
       in
     and_then
       (and_then (reading ethereum) (\<lambda>extension.
          case extension of
            Some provider \<Rightarrow>
              try_catch (personalSign provider registrationMessage walletAddress)
                (\<lambda>error. throw (Error (''Wallet signature failed: '' @ err_message error)))
          | None \<Rightarrow> throw (Error ''MetaMask not available for wallet signature'')))
       (\<lambda>walletSignature.
     and_then (reading userAgent) (\<lambda>agent.
     and_then
       (doFetch (registrationRequest agent walletAddress (cred_id credential) publicKeyBase64
                   deviceName walletSignature))
       (\<lambda>response.
     and_then
       (if \<not> ok response
        then and_then (responseJson response) (\<lambda>error.
             and_then (settle (get_prop error ''error'')) (\<lambda>message.
               throw (Error (js_toString (or_default message ''Registration failed'')))))
        else resolve ())
       (\<lambda>_.
     and_then (responseJson response) (\<lambda>result.
     and_then (storeCredentialId walletAddress (cred_id credential)) (\<lambda>_.
       resolve
         \<lparr>success = True,
          rr_credentialId = cred_id credential,
          rr_walletAddress = walletAddress,
          rr_deviceName = deviceName\<rparr>))))))))))"

text \<open>\<^verbatim>\<open>signWriteProposal\<close>. The first request asks the backend for a challenge, the
  second submits the signed proposal.\<close>

definition challengeRequest :: "string \<Rightarrow> string \<Rightarrow> request" where
  "challengeRequest path content =
     \<lparr>req_method = ''GET'',
      req_url = ''/bin/blockchain-aem/propose-write-biometric?path='' @ encodeURIComponent path @
                ''&content='' @ encodeURIComponent content,
      req_body = None\<rparr>"

definition proposalRequest ::
  "json option \<Rightarrow> string \<Rightarrow> string \<Rightarrow> string \<Rightarrow> string \<Rightarrow> json option \<Rightarrow> string \<Rightarrow> string \<Rightarrow>
   int option \<Rightarrow> request" where
  "proposalRequest proposalId walletAddress credentialId signatureBase64 publicKeyBase64
     challenge path content tier =
     \<lparr>req_method = ''POST'',
      req_url = ''/bin/blockchain-aem/propose-write-biometric'',
      req_body = Some (stringify
        [(''proposalId'', proposalId),
         (''walletAddress'', Some (JStr walletAddress)),
         (''credentialId'', Some (JStr credentialId)),
         (''signature'', Some (JStr signatureBase64)),
         (''publicKey'', Some (JStr publicKeyBase64)),
         (''challenge'', challenge),
         (''path'', Some (JStr path)),
         (''content'', Some (JStr content)),
         (''tier'', Some (JNum (case tier of None \<Rightarrow> 0 | Some t \<Rightarrow> if t \<noteq> 0 then t else 0)))])\<rparr>"

definition signWriteProposal :: "string \<Rightarrow> string \<Rightarrow> int option \<Rightarrow> json io" where
  "signWriteProposal path content tier =
     and_then isAvailable (\<lambda>available.
       if \<not> available then throw (Error ''Biometric authentication not available'')
       else
     and_then getCurrentWalletAddress (\<lambda>currentAddress.
       case currentAddress of
         None \<Rightarrow> throw (Error ''Not authenticated with wallet'')
       | Some walletAddress \<Rightarrow>
       if walletAddress = [] then throw (Error ''Not authenticated with wallet'')
       else
     and_then (getStoredCredentialId walletAddress) (\<lambda>storedId.
       case storedId of
         None \<Rightarrow> throw (Error ''No passkey registered for this wallet. Please register first.'')
       | Some credentialId \<Rightarrow>
       if credentialId = []
       then throw (Error ''No passkey registered for this wallet. Please register first.'')
       else
     and_then (doFetch (challengeRequest path content)) (\<lambda>challengeResponse.
     and_then
       (if \<not> ok challengeResponse
        then and_then (responseJson challengeResponse) (\<lambda>error.
             and_then (settle (get_prop error ''error'')) (\<lambda>message.
               throw (Error (js_toString (or_default message ''Challenge generation failed'')))))
        else resolve ())
       (\<lambda>_.
     and_then (responseJson challengeResponse) (\<lambda>challengeData.
     and_then (settle (get_prop challengeData ''challenge'')) (\<lambda>challenge.
     and_then (settle (base64ToArrayBuffer (js_toString_opt challenge))) (\<lambda>challengeBytes.
     and_then (settle (get_prop challengeData ''proposalId'')) (\<lambda>proposalId.
     and_then (settle (base64UrlToArrayBuffer credentialId)) (\<lambda>allowedId.
       let publicKeyCredentialRequestOptions =
             \<lparr>ro_challenge = challengeBytes,
              ro_allowCredentials = [allowedId],
              ro_userVerification = ''required'',
              ro_timeout = 60000\<rparr>
       in
     and_then
       (try_catch (credentialsGet publicKeyCredentialRequestOptions)
          (\<lambda>error.
             if err_name error = ''NotAllowedError''
             then throw (Error ''User cancelled biometric authentication'')
             else throw (Error (''Biometric authentication failed: '' @ err_message error))))
       (\<lambda>assertion.
       let signature = as_signature assertion;
           signatureBase64 = arrayBufferToBase64 signature;
           publicKey = extractPublicKeyFromAssertion assertion;
           publicKeyBase64 = arrayBufferToBase64 publicKey
       in
     and_then
       (doFetch (proposalRequest proposalId walletAddress credentialId signatureBase64
                   publicKeyBase64 challenge path content tier))
       (\<lambda>proposalResponse.
     and_then
       (if \<not> ok proposalResponse
        then and_then (responseJson proposalResponse) (\<lambda>error.
             and_then (settle (get_prop error ''error'')) (\<lambda>message.
               throw (Error (js_toString (or_default message ''Proposal submission failed'')))))
        else resolve ())
       (\<lambda>_.
     and_then (responseJson proposalResponse) (\<lambda>result. resolve result))))))))))))))"

section \<open>Observing a run\<close>

text \<open>The events a run added to the trace, the requests among them, those sent with
  \<^verbatim>\<open>POST\<close>, and the options of the assertion and creation prompts.\<close>

definition new_events :: "browser \<Rightarrow> browser \<Rightarrow> event list" where
  "new_events w w' = drop (length (events w)) (events w')"

fun fetched :: "event list \<Rightarrow> request list" where
  "fetched [] = []"
| "fetched (Fetch q # es) = q # fetched es"
| "fetched (ev # es) = fetched es"

definition posted :: "event list \<Rightarrow> request list" where
  "posted es = filter (\<lambda>q. req_method q = ''POST'') (fetched es)"

fun asked :: "event list \<Rightarrow> request_options list" where
  "asked [] = []"
| "asked (CredentialsGet options # es) = options # asked es"
| "asked (ev # es) = asked es"

fun created :: "event list \<Rightarrow> creation_options list" where
  "created [] = []"
| "created (CredentialsCreate options # es) = options # created es"
| "created (ev # es) = created es"

text \<open>A member of the JSON object in the body of a request.\<close>

definition body_member :: "request \<Rightarrow> string \<Rightarrow> json option" where
  "body_member q key =
     (case req_body q of Some (JObj members) \<Rightarrow> map_of members key | _ \<Rightarrow> None)"

section \<open>Scenarios\<close>

text \<open>The cycle of the specification: the login page sets the wallet up, the manager
  registers a passkey for its address and signs one write proposal, and the session ends.
  When the setup fails, the session ends at once.\<close>

definition cycle :: "string option \<Rightarrow> string \<Rightarrow> string \<Rightarrow> int option \<Rightarrow> browser \<Rightarrow> browser" where
  "cycle deviceName path content tier w =
     (case setupBiometricWallet w of
        (Inl e, w1) \<Rightarrow> endSession w1
      | (Inr done, w1) \<Rightarrow>
          endSession (snd (signWriteProposal path content tier
            (snd (register (sr_address done) deviceName w1)))))"

text \<open>The four values \<^verbatim>\<open>setupBiometricWallet\<close> writes to \<^verbatim>\<open>localStorage\<close>: the address, the
  credential id, the P-256 public key in base64 and the secp256k1 public key.\<close>

definition stored_by_setup :: "walletData \<Rightarrow> string set" where
  "stored_by_setup walletData =
     {address walletData, wd_credentialId walletData,
      btoa (map fromCharCode (wd_p256PubKey walletData)), publicKey walletData}"

text \<open>The form of the private key: \<^verbatim>\<open>deriveSecp256k1Wallet\<close> writes it as \<^verbatim>\<open>0x\<close> and the 64
  hexadecimal digits, in lower case, of the 32 bytes of the digest.\<close>

definition private_key_form :: "string \<Rightarrow> bool" where
  "private_key_form s =
     (length s = 66 \<and> take 2 s = ''0x'' \<and>
      list_all (\<lambda>c. c \<in> set ''0123456789abcdef'') (drop 2 s))"

subsection \<open>A concrete page\<close>

text \<open>A stand-in for the \<^verbatim>\<open>ethers\<close> library in concrete runs: it accepts every key, keeps
  it as \<^verbatim>\<open>privateKey\<close> as the library does, and answers with a fixed address and public
  key.\<close>

definition stub_ethers :: ethers_lib where
  "stub_ethers = \<lparr>Wallet = (\<lambda>privateKeyHex.
      Inr \<lparr>address = ''0x00000000000000000000000000000000000000a1'',
           privateKey = privateKeyHex,
           publicKey = ''0x04b1''\<rparr>)\<rparr>"

text \<open>A page where everything works: the authenticator creates a credential whose public
  key is the base point of P-256 and signs every challenge, the wallet extension has the
  account \<^verbatim>\<open>0x00000000000000000000000000000000000000a1\<close>, the backend accepts every
  request and answers with the session user, a challenge and a proposal id, and a passkey
  is on file for the account.\<close>

definition page :: browser where
  "page =
     \<lparr>ethers = Some stub_ethers,
      hasPublicKeyCredential = True,
      isUVPAA = Inr True,
      ethereum = Some \<lparr>personal_sign = (\<lambda>message account. Inr ''0x5167''),
                       eth_accounts = Inr [''0x00000000000000000000000000000000000000a1'']\<rparr>,
      hostname = ''localhost'',
      userAgent = ''agent'',
      random = (\<lambda>i. word_of_nat i),
      random_pos = 0,
      credentials_create = (\<lambda>options.
        Inr \<lparr>cred_id = ''Y3JlZA'', cred_rawId = [99, 114, 101, 100],
             getPublicKey = Some (Some p256_generator)\<rparr>),
      credentials_get = (\<lambda>options. Inr \<lparr>as_id = ''Y3JlZA'', as_signature = [1, 2, 3]\<rparr>),
      fetch = (\<lambda>req. Inr \<lparr>ok = True,
                           json_body = Inr (JObj
                             [(''userID'', JStr ''0x00000000000000000000000000000000000000a1''),
                              (''challenge'', JStr ''AQID''),
                              (''proposalId'', JStr ''p1'')])\<rparr>),
      localStorage =
        [''biometric_credential_0x00000000000000000000000000000000000000a1'' \<mapsto> ''Y3JlZA''],
      sessionStorage = Map.empty,
      events = []\<rparr>"

text \<open>The same page with a user who declines every prompt of the authenticator.\<close>

definition NotAllowedError :: js_error where
  "NotAllowedError =
     JsError ''NotAllowedError'' ''The operation either timed out or was not allowed.''"

definition declining_page :: browser where
  "declining_page =
     page\<lparr>credentials_create := (\<lambda>options. Inl NotAllowedError),
          credentials_get := (\<lambda>options. Inl NotAllowedError)\<rparr>"


section \<open>The challenge registry of the backend\<close>

text \<open>Modelled from the spec: the challenge service and the proposal verifier run on the
  backend, which is not among the sources; the scripts only call them. The spec gives a
  challenge a nonce, a proposal identifier, the path, content digest and tier it is bound
  to, an issuance time and an expiry, and has it consumed by the first valid assertion.
  A nonce is new when it is issued, which a counter models. Whether the signature of an
  assertion validates against the registered public key is an input of the verifier.\<close>

record challenge =
  ch_proposal :: nat
  ch_path :: string
  ch_digest :: string
  ch_tier :: nat
  ch_issued :: nat
  ch_expiry :: nat
  ch_consumed :: bool

record registry =
  challenges :: "nat \<rightharpoonup> challenge"
  next_nonce :: nat

definition empty_registry :: registry where
  "empty_registry = \<lparr>challenges = Map.empty, next_nonce = 0\<rparr>"

text \<open>Modelled from the spec: a challenge request for a path, a digest and a tier at a
  time \<open>now\<close> mints a new nonce, valid for \<open>ttl\<close>.\<close>

definition issue :: "string \<Rightarrow> string \<Rightarrow> nat \<Rightarrow> nat \<Rightarrow> nat \<Rightarrow> registry \<Rightarrow> nat \<times> registry" where
  "issue path digest tier now ttl reg =
     (next_nonce reg,
      \<lparr>challenges = (challenges reg)(next_nonce reg \<mapsto>
           \<lparr>ch_proposal = next_nonce reg, ch_path = path, ch_digest = digest, ch_tier = tier,
            ch_issued = now, ch_expiry = now + ttl, ch_consumed = False\<rparr>),
       next_nonce = Suc (next_nonce reg)\<rparr>)"

record submission =
  sub_nonce :: nat
  sub_path :: string
  sub_digest :: string
  sub_tier :: nat
  sub_signature_valid :: bool

datatype rejection = ChallengeConsumed | ChallengeExpired | SignatureMismatch | UnknownChallenge

datatype verdict = Signed | Rejected rejection

text \<open>Modelled from the spec: a submission is rejected when its challenge is unknown,
  already consumed or expired, and when the signature does not validate or the path,
  digest or tier differ from those the challenge was issued for; otherwise it is signed
  and the challenge is marked consumed.\<close>

definition submit :: "submission \<Rightarrow> nat \<Rightarrow> registry \<Rightarrow> verdict \<times> registry" where
  "submit s now reg =
     (case challenges reg (sub_nonce s) of
        None \<Rightarrow> (Rejected UnknownChallenge, reg)
      | Some c \<Rightarrow>
          if ch_consumed c then (Rejected ChallengeConsumed, reg)
          else if ch_expiry c < now then (Rejected ChallengeExpired, reg)
          else if \<not> sub_signature_valid s \<or> sub_path s \<noteq> ch_path c \<or>
                  sub_digest s \<noteq> ch_digest c \<or> sub_tier s \<noteq> ch_tier c
            then (Rejected SignatureMismatch, reg)
          else (Signed,
                reg\<lparr>challenges := (challenges reg)(sub_nonce s \<mapsto> c\<lparr>ch_consumed := True\<rparr>)\<rparr>))"

text \<open>What reaches the registry, one request after the other.\<close>

datatype operation =
    Issue string string nat nat nat
  | Submit submission nat

fun apply_operation :: "registry \<Rightarrow> operation \<Rightarrow> registry" where
  "apply_operation reg (Issue path digest tier now ttl) = snd (issue path digest tier now ttl reg)"
| "apply_operation reg (Submit s now) = snd (submit s now reg)"

definition run_operations :: "operation list \<Rightarrow> registry \<Rightarrow> registry" where
  "run_operations ops reg = foldl apply_operation reg ops"

section \<open>Auxiliary functions of the proofs\<close>

text \<open>The unpadded sextets of an encoding and the number of padding characters.\<close>

fun enc_body :: "nat list \<Rightarrow> nat list" where
  "enc_body (a # b # c # rest) =
     [a div 4, (a mod 4) * 16 + b div 16, (b mod 16) * 4 + c div 64, c mod 64] @ enc_body rest"
| "enc_body [a, b] = [a div 4, (a mod 4) * 16 + b div 16, (b mod 16) * 4]"
| "enc_body [a] = [a div 4, (a mod 4) * 16]"
| "enc_body [] = []"

fun pad_of :: "nat list \<Rightarrow> nat" where
  "pad_of (a # b # c # rest) = pad_of rest"
| "pad_of [a, b] = 1"
| "pad_of [a] = 2"
| "pad_of [] = 0"

text \<open>The 64 bytes \<^verbatim>\<open>deriveEthereumAddress\<close> hashes: bytes 1 to 32 and bytes 33 to 64 of
  the key, each filled up with zeros where the key is too short.\<close>

definition coordinateBytes :: "byte list \<Rightarrow> byte list" where
  "coordinateBytes k =
     (let qx = u8_slice 1 33 k; qy = u8_slice 33 65 k
      in qx @ replicate (32 - length qx) 0 @ qy @ replicate (32 - length qy) 0)"

text \<open>A run as a relation, and the postcondition of a run: \<open>post m w Q\<close> says that
  \<open>Q\<close> holds of the outcome and the final browser of \<open>m\<close> started in \<open>w\<close>.\<close>

definition run :: "'a io \<Rightarrow> browser \<Rightarrow> (js_error + 'a) \<Rightarrow> browser \<Rightarrow> bool" where
  "run m w r w' = (m w = (r, w'))"

definition post :: "'a io \<Rightarrow> browser \<Rightarrow> ((js_error + 'a) \<Rightarrow> browser \<Rightarrow> bool) \<Rightarrow> bool" where
  "post m w Q = Q (fst (m w)) (snd (m w))"

named_theorems post_simps

text \<open>Several events at once.\<close>

definition emits :: "event list \<Rightarrow> browser \<Rightarrow> browser" where
  "emits es w = w\<lparr>events := events w @ es\<rparr>"

text \<open>What \<^verbatim>\<open>isAvailable\<close> resolves to, and the events \<^verbatim>\<open>_getCurrentWalletAddress\<close>
  adds.\<close>

definition available :: "browser \<Rightarrow> bool" where
  "available w = (hasPublicKeyCredential w \<and> isUVPAA w = Inr True)"

definition wallet_events :: "browser \<Rightarrow> event list" where
  "wallet_events w = drop (length (events w)) (events (snd (getCurrentWalletAddress w)))"

text \<open>The title the \<^verbatim>\<open>catch\<close> block of \<^verbatim>\<open>setupBiometricWallet\<close> reports.\<close>

definition failure_title :: "js_error \<Rightarrow> string" where
  "failure_title error =
     (if err_name error = ''NotAllowedError'' then ''Registration Cancelled''
      else if err_name error = ''NotSupportedError'' then ''Not Supported''
      else if err_message error \<noteq> [] \<and> str_includes (err_message error) ''ethers''
        then ''Missing Dependency''
      else ''Registration Failed'')"

text \<open>The invariant of the registry: every nonce on file is below the counter.\<close>

definition nonces_below :: "registry \<Rightarrow> bool" where
  "nonces_below reg = (\<forall>n. challenges reg n \<noteq> None \<longrightarrow> n < next_nonce reg)"

definition consumed_in :: "registry \<Rightarrow> nat \<Rightarrow> bool" where
  "consumed_in reg n = (case challenges reg n of None \<Rightarrow> False | Some c \<Rightarrow> ch_consumed c)"

section \<open>Base64 round trip\<close>

lemma enc_groups_split:
  "enc_groups xs = map b64_char (enc_body xs) @ replicate (pad_of xs) (CHR ''='')"
  by (induction xs rule: enc_groups.induct) (simp_all add: numeral_2_eq_2)

lemma enc_body_lt64: "\<forall>x\<in>set xs. x < 256 \<Longrightarrow> \<forall>s\<in>set (enc_body xs). s < 64"
proof (induction xs rule: enc_body.induct)
  case (1 a b c rest)
  then show ?case by (auto simp: less_mult_imp_div_less) 
next
  case (2 a b) then show ?case by (auto simp: less_mult_imp_div_less) 
next
  case (3 a) then show ?case by (auto simp: less_mult_imp_div_less)
qed simp

lemma dec_group:
  fixes a b c :: nat
  assumes "a < 256" "b < 256" "c < 256"
  shows "a div 4 * 4 + (a mod 4 * 16 + b div 16) div 16 = a"
    and "(a mod 4 * 16 + b div 16) mod 16 * 16 + (b mod 16 * 4 + c div 64) div 4 = b"
    and "(b mod 16 * 4 + c div 64) mod 4 * 64 + c mod 64 = c"
proof -
  have b: "b div 16 < 16" and c: "c div 64 < 4"
    using assms by (simp_all add: less_mult_imp_div_less)
  show "a div 4 * 4 + (a mod 4 * 16 + b div 16) div 16 = a"
    using b by simp
  show "(a mod 4 * 16 + b div 16) mod 16 * 16 + (b mod 16 * 4 + c div 64) div 4 = b"
    using b c by simp
  show "(b mod 16 * 4 + c div 64) mod 4 * 64 + c mod 64 = c"
    using c by simp
qed

lemma dec_enc_body: "\<forall>x\<in>set xs. x < 256 \<Longrightarrow> dec_sextets (enc_body xs) = xs"
proof (induction xs rule: enc_body.induct)
  case (1 a b c rest)
  then show ?case using dec_group [of a b c] by simp
next
  case (2 a b) then show ?case using dec_group [of a b 0] by simp
next
  case (3 a) then show ?case using dec_group [of a 0 0] by simp
qed simp


lemma index_of_nth: "distinct xs \<Longrightarrow> n < length xs \<Longrightarrow> index_of (xs ! n) xs = Some n"
proof (induction xs arbitrary: n)
  case Nil then show ?case by simp
next
  case (Cons a xs)
  then show ?case by (cases n) auto
qed

lemma b64_alphabet_facts:
  "distinct b64_alphabet" "length b64_alphabet = 64"
  "CHR ''='' \<notin> set b64_alphabet" "\<forall>c\<in>set b64_alphabet. \<not> is_ascii_whitespace c"
  unfolding b64_alphabet_def is_ascii_whitespace_def by simp_all

lemma b64_char_in: "s < 64 \<Longrightarrow> b64_char s \<in> set b64_alphabet"
  by (simp add: b64_char_def b64_alphabet_facts)

lemma b64_index_char: "s < 64 \<Longrightarrow> b64_index (b64_char s) = Some s"
  by (simp add: b64_index_def b64_char_def index_of_nth b64_alphabet_facts)

lemma b64_char_not_pad: "s < 64 \<Longrightarrow> b64_char s \<noteq> CHR ''=''"
  using b64_char_in b64_alphabet_facts(3) by metis

lemma b64_char_not_ws: "s < 64 \<Longrightarrow> \<not> is_ascii_whitespace (b64_char s)"
  using b64_char_in b64_alphabet_facts(4) by blast

lemma pad_not_ws: "\<not> is_ascii_whitespace (CHR ''='')"
  by (simp add: is_ascii_whitespace_def)

lemma those_index_chars:
  "\<forall>s\<in>set ss. s < 64 \<Longrightarrow> those (map b64_index (map b64_char ss)) = Some ss"
  by (induction ss) (simp_all add: b64_index_char)

lemma length_enc_body_pad: "(length (enc_body xs) + pad_of xs) mod 4 = 0"
  by (induction xs rule: enc_body.induct) simp_all

lemma pad_of_cases:
  "pad_of xs = 0 \<or> (pad_of xs = 1 \<and> length (enc_body xs) mod 4 = 3)
     \<or> (pad_of xs = 2 \<and> length (enc_body xs) mod 4 = 2)"
  by (induction xs rule: enc_body.induct) simp_all

lemma length_enc_body_mod: "length (enc_body xs) mod 4 \<noteq> 1"
  by (induction xs rule: enc_body.induct) simp_all

lemma strip_padding_none:
  assumes "\<forall>c\<in>set body. c \<noteq> CHR ''=''"
  shows "strip_padding body = body"
proof -
  have "drop (length body - 2) body \<noteq> ''==''" if "2 \<le> length body"
  proof
    assume "drop (length body - 2) body = ''==''"
    then have "CHR ''='' \<in> set (drop (length body - 2) body)" by simp
    then have "CHR ''='' \<in> set body" by (rule in_set_dropD)
    with assms show False by blast
  qed
  moreover have "drop (length body - 1) body \<noteq> ''=''" if "1 \<le> length body"
  proof
    assume "drop (length body - 1) body = ''=''"
    then have "CHR ''='' \<in> set (drop (length body - 1) body)" by simp
    then have "CHR ''='' \<in> set body" by (rule in_set_dropD)
    with assms show False by blast
  qed
  ultimately show ?thesis by (auto simp: strip_padding_def Let_def)
qed

lemma strip_padding_one:
  assumes "\<forall>c\<in>set body. c \<noteq> CHR ''=''" "(length body + 1) mod 4 = 0"
  shows "strip_padding (body @ ''='') = body"
proof -
  have ne: "body \<noteq> []" using assms(2) by auto
  then have "drop (length body - 1) (body @ ''='') = [last body, CHR ''='']"
    by (cases body rule: rev_cases) simp_all
  moreover have "last body \<noteq> CHR ''=''" using ne assms(1) last_in_set by blast
  ultimately show ?thesis using assms(2) by (simp add: strip_padding_def Let_def)
qed

lemma strip_padding_two:
  assumes "(length body + 2) mod 4 = 0"
  shows "strip_padding (body @ ''=='') = body"
  using assms by (simp add: strip_padding_def Let_def)

lemma atob_enc_groups:
  assumes "\<forall>x\<in>set xs. x < 256"
  shows "atob (enc_groups xs) = Inr (map char_of xs)"
proof -
  let ?body = "map b64_char (enc_body xs)"
  have lt: "\<forall>s\<in>set (enc_body xs). s < 64" using assms by (rule enc_body_lt64)
  have nopad: "\<forall>c\<in>set ?body. c \<noteq> CHR ''=''" using lt b64_char_not_pad by auto
  have nows: "filter (\<lambda>c. \<not> is_ascii_whitespace c) (enc_groups xs) = enc_groups xs"
    unfolding enc_groups_split using lt b64_char_not_ws pad_not_ws by (auto simp: filter_id_conv)
  have strip: "strip_padding (enc_groups xs) = ?body"
  proof -
    consider "pad_of xs = 0"
      | "pad_of xs = 1" "length (enc_body xs) mod 4 = 3"
      | "pad_of xs = 2" "length (enc_body xs) mod 4 = 2"
      using pad_of_cases [of xs] by auto
    then show ?thesis
    proof cases
      case 1
      then show ?thesis using strip_padding_none [OF nopad] by (simp add: enc_groups_split)
    next
      case 2
      have "(length ?body + 1) mod 4 = 0" using 2(2) by (simp add: mod_Suc)
      then show ?thesis using 2(1) strip_padding_one [OF nopad] by (simp add: enc_groups_split)
    next
      case 3
      have "(length ?body + 2) mod 4 = 0" using 3(2) by (simp add: mod_Suc numeral_2_eq_2) 
      then show ?thesis using 3(1) strip_padding_two [of ?body] by (simp add: enc_groups_split numeral_2_eq_2)
    qed
  qed
  have "length ?body mod 4 \<noteq> 1" using length_enc_body_mod by simp
  then show ?thesis
    unfolding atob_def using nows strip those_index_chars [OF lt] dec_enc_body [OF assms]
    by (simp add: Let_def)
qed

lemma atob_btoa: "atob (btoa s) = Inr s"
proof -
  have "\<forall>x\<in>set (map of_char s). x < (256::nat)" by simp
  then have "atob (enc_groups (map of_char s)) = Inr (map char_of (map of_char s :: nat list))"
    by (rule atob_enc_groups)
  then show ?thesis by (simp add: btoa_def comp_def)
qed

lemma foldl_append_char: "foldl (\<lambda>binary b. binary @ [f b]) acc xs = acc @ map f xs"
  by (induction xs arbitrary: acc) simp_all

lemma foldl_fill:
  "k \<le> n \<Longrightarrow>
   foldl (\<lambda>bytes i. bytes[i := f i]) (replicate n z) [0..<k] = map f [0..<k] @ replicate (n - k) z"
proof (induction k)
  case 0
  then show ?case by simp
next
  case (Suc k)
  then have "k < n" by simp
  then have "replicate (n - k) z = z # replicate (n - Suc k) z"
    by (metis Suc_diff_Suc replicate_Suc)
  then have "(map f [0..<k] @ replicate (n - k) z)[k := f k] =
             map f [0..<k] @ f k # replicate (n - Suc k) z"
    by (simp add: list_update_append)
  with Suc show ?case by simp
qed

lemma unat_byte_less: "unat (b :: byte) < 256"
  using unsigned_less [of b] by simp

lemma charCodeAt_fromCharCode:
  "i < length bs \<Longrightarrow> charCodeAt (map fromCharCode bs) i = bs ! i"
  by (simp add: charCodeAt_def fromCharCode_def unat_byte_less)

lemma fill_decoded:
  "foldl (\<lambda>bytes i. bytes[i := charCodeAt (map fromCharCode bs) i])
     (replicate (length bs) 0) [0..<length bs] = bs"
proof -
  have "map (charCodeAt (map fromCharCode bs)) [0..<length bs] = map ((!) bs) [0..<length bs]"
    by (rule map_cong) (simp_all add: charCodeAt_fromCharCode)
  then show ?thesis
    using foldl_fill [of "length bs" "length bs" "charCodeAt (map fromCharCode bs)" 0]
    by (simp add: map_nth)
qed

text \<open>
  Claim C10. For every byte array \<open>b\<close>, decoding the base64 encoding of \<open>b\<close> returns
  \<open>b\<close>: \<^verbatim>\<open>_base64ToArrayBuffer(_arrayBufferToBase64(b))\<close> succeeds and is \<open>b\<close>.
\<close>

theorem base64_round_trip: "base64ToArrayBuffer (arrayBufferToBase64 b) = Inr b"
  by (simp add: base64ToArrayBuffer_def arrayBufferToBase64_def foldl_append_char
      atob_btoa fill_decoded)

theorem base64_round_trip_witness:
  "base64ToArrayBuffer (arrayBufferToBase64 [0, 255, 16, 128]) = Inr [0, 255, 16, 128]"
  by (rule base64_round_trip)

section \<open>Facts about the encodings and the digest\<close>

lemma be_int_zeros: "foldl (\<lambda>acc b. acc * 256 + uint b) 0 (replicate n (0 :: byte)) = 0"
  by (induction n) simp_all

lemma zero_point_malformed: "\<not> wellFormedPublicKey (4 # replicate 64 0)"
  by (simp add: wellFormedPublicKey_def be_int_def be_int_zeros p256_prime_def p256_b_def)


lemma length_round_step: "length (round_step s kw) = length s"
  by (cases "(s, kw)" rule: round_step.cases) (simp_all add: Let_def)

lemma length_rounds: "length (foldl round_step s kws) = length s"
  by (induction kws arbitrary: s) (simp_all add: length_round_step)

lemma length_compress: "length (compress hs block) = length hs"
  by (simp add: compress_def Let_def length_rounds)

lemma length_compress_all: "length (foldl compress hs blocks) = length hs"
  by (induction blocks arbitrary: hs) (simp_all add: length_compress)

lemma length_concat_words: "length (concat (map bytes_of_u32 ws)) = 4 * length ws"
  by (induction ws) (simp_all add: bytes_of_u32_def)

lemma length_sha256: "length (sha256 m) = 32"
  by (simp add: sha256_def Let_def length_concat_words length_compress_all sha256_H0_def)

lemma length_toString16:
  assumes "n < 256"
  shows "length (padStart 2 (CHR ''0'') (toString16 n)) = 2"
proof (cases "n < 16")
  case True
  then show ?thesis by (simp add: padStart_def toString16.simps [of n])
next
  case False
  with assms have "n div 16 < 16" by simp
  with False show ?thesis
    by (simp add: padStart_def toString16.simps [of n] toString16.simps [of "n div 16"])
qed

lemma length_byte_hex: "length (padStart 2 (CHR ''0'') (toString16 (unat (b :: byte)))) = 2"
  by (rule length_toString16) (rule unat_byte_less)

lemma length_bytesToHex: "length (bytesToHex bs) = 2 * length bs"
  by (induction bs) (simp_all add: bytesToHex_def length_byte_hex)

lemma take_bytesToHex: "take (2 * n) (bytesToHex bs) = bytesToHex (take n bs)"
proof (induction bs arbitrary: n)
  case Nil
  then show ?case by (simp add: bytesToHex_def)
next
  case (Cons b bs)
  show ?case
  proof (cases n)
    case 0
    then show ?thesis by (simp add: bytesToHex_def)
  next
    case (Suc m)
    have "bytesToHex (b # bs) = padStart 2 (CHR ''0'') (toString16 (unat b)) @ bytesToHex bs"
      by (simp add: bytesToHex_def)
    moreover have "bytesToHex (b # take m bs) =
        padStart 2 (CHR ''0'') (toString16 (unat b)) @ bytesToHex (take m bs)"
      by (simp add: bytesToHex_def)
    ultimately show ?thesis
      using Suc Cons.IH [of m] length_byte_hex [of b] by simp
  qed
qed

lemma u8_set_coordinates:
  assumes "length qx \<le> 32" "length qy \<le> 32"
  shows "u8_set qx 0 (replicate 64 0) = Inr (qx @ replicate (64 - length qx) 0)"
    and "u8_set qy 32 (qx @ replicate (64 - length qx) 0) =
           Inr (qx @ replicate (32 - length qx) 0 @ qy @ replicate (32 - length qy) 0)"
proof -
  show "u8_set qx 0 (replicate 64 0) = Inr (qx @ replicate (64 - length qx) 0)"
    using assms by (simp add: u8_set_def)
  have "take 32 (qx @ replicate (64 - length qx) 0) = qx @ replicate (32 - length qx) (0 :: byte)"
    using assms by (simp add: min_def)
  moreover have "drop (32 + length qy) (qx @ replicate (64 - length qx) 0) =
      replicate (32 - length qy) (0 :: byte)"
    using assms by simp
  ultimately show "u8_set qy 32 (qx @ replicate (64 - length qx) 0) =
      Inr (qx @ replicate (32 - length qx) 0 @ qy @ replicate (32 - length qy) 0)"
    using assms by (simp add: u8_set_def)
qed

lemma deriveEthereumAddress_eq:
  "deriveEthereumAddress k = Inr (''0x'' @ bytesToHex (take 20 (sha256 (coordinateBytes k))))"
proof -
  let ?qx = "u8_slice 1 33 k" and ?qy = "u8_slice 33 65 k"
  have len: "length ?qx \<le> 32" "length ?qy \<le> 32" by (simp_all add: u8_slice_def)
  note s1 = u8_set_coordinates(1) [OF len] and s2 = u8_set_coordinates(2) [OF len]
  have h: "take 40 (bytesToHex h) = bytesToHex (take 20 h)" for h
    using take_bytesToHex [of 20 h] by simp
  show ?thesis
    by (simp only: deriveEthereumAddress_def coordinateBytes_def Let_def keccak256_def
        s1 s2 sum.case h)
qed

lemma coordinateBytes_65: "length k = 65 \<Longrightarrow> coordinateBytes k = drop 1 k"
proof -
  assume l: "length k = 65"
  have "take 32 (drop 1 k) @ drop 33 k = drop 1 k"
    using append_take_drop_id [of 32 "drop 1 k"] by simp
  with l show ?thesis by (simp add: coordinateBytes_def u8_slice_def Let_def)
qed

lemma generator_well_formed: "wellFormedPublicKey p256_generator"
  by (simp add: wellFormedPublicKey_def p256_generator_def be_int_def p256_prime_def p256_b_def)

lemma sha256_generator_coordinates:
  "bytesToHex (sha256 (drop 1 p256_generator)) =
     ''d875db7def232236aec738c6b0bb3e80142f5d0fd8f4df24fed6eef5cbb50d9f''"
  by code_simp


lemma sha256_zero_coordinates:
  "bytesToHex (sha256 (replicate 64 0)) =
     ''f5a5fd42d16a20302798ef6ed309979b43003d2320d9f0e8ea9831a92759fb4b''"
  by code_simp

section \<open>Reasoning about runs\<close>

lemma run_resolveD: "run (resolve x) w r w' \<Longrightarrow> r = Inr x \<and> w' = w"
  unfolding run_def resolve_def by auto

lemma run_throwD: "run (throw e) w r w' \<Longrightarrow> r = Inl e \<and> w' = w"
  unfolding run_def throw_def by auto

lemma run_settleD: "run (settle v) w r w' \<Longrightarrow> r = v \<and> w' = w"
  unfolding run_def settle_def by auto

lemma run_readingD: "run (reading f) w r w' \<Longrightarrow> r = Inr (f w) \<and> w' = w"
  unfolding run_def reading_def by auto

lemma run_doFetchD: "run (doFetch req) w r w' \<Longrightarrow> r = fetch w req \<and> w' = emit (Fetch req) w"
  unfolding run_def doFetch_def by auto

lemma run_responseJsonD: "run (responseJson resp) w r w' \<Longrightarrow> r = json_body resp \<and> w' = w"
  unfolding run_def responseJson_def settle_def by auto

lemma run_requestAccountsD:
  "run (requestAccounts p) w r w' \<Longrightarrow> r = eth_accounts p \<and> w' = emit EthAccounts w"
  unfolding run_def requestAccounts_def by auto

lemmas run_prims = run_resolveD run_throwD run_settleD run_readingD run_doFetchD run_responseJsonD
  run_requestAccountsD

lemma run_and_thenE:
  assumes "run (and_then m f) w r w'"
  obtains (failed) e where "run m w (Inl e) w'" "r = Inl e"
        | (went_on) x w1 where "run m w (Inr x) w1" "run (f x) w1 r w'"
  using assms unfolding run_def and_then_def by (auto split: prod.splits sum.splits)

lemma run_try_catchE:
  assumes "run (try_catch m h) w r w'"
  obtains (caught) e w1 where "run m w (Inl e) w1" "run (h e) w1 r w'"
        | (passed) x where "run m w (Inr x) w'" "r = Inr x"
  using assms unfolding run_def try_catch_def by (auto split: prod.splits sum.splits)

lemma run_ifE:
  assumes "run (if c then a else b) w r w'"
  obtains "c" "run a w r w'" | "\<not> c" "run b w r w'"
  using assms by (cases c) simp_all

lemma run_case_optionE:
  assumes "run (case x of None \<Rightarrow> a | Some y \<Rightarrow> b y) w r w'"
  obtains "x = None" "run a w r w'" | y where "x = Some y" "run (b y) w r w'"
  using assms by (cases x) simp_all

lemmas run_elims = run_and_thenE run_try_catchE run_ifE run_case_optionE

lemma emit_is_emits: "emit e w = emits [e] w"
  by (simp add: emit_def emits_def)

lemma emits_emits: "emits b (emits a w) = emits (a @ b) w"
  by (simp add: emits_def)

lemma emit_fields [simp]:
  "events (emit e w) = events w @ [e]"
  "localStorage (emit e w) = localStorage w"
  "sessionStorage (emit e w) = sessionStorage w"
  "fetch (emit e w) = fetch w"
  "credentials_get (emit e w) = credentials_get w"
  "credentials_create (emit e w) = credentials_create w"
  "ethereum (emit e w) = ethereum w"
  "ethers (emit e w) = ethers w"
  "hasPublicKeyCredential (emit e w) = hasPublicKeyCredential w"
  "isUVPAA (emit e w) = isUVPAA w"
  "hostname (emit e w) = hostname w"
  "userAgent (emit e w) = userAgent w"
  "random (emit e w) = random w"
  "random_pos (emit e w) = random_pos w"
  by (simp_all add: emit_def)

lemma emits_fields [simp]:
  "events (emits es w) = events w @ es"
  "localStorage (emits es w) = localStorage w"
  "sessionStorage (emits es w) = sessionStorage w"
  "fetch (emits es w) = fetch w"
  "credentials_get (emits es w) = credentials_get w"
  "credentials_create (emits es w) = credentials_create w"
  "ethereum (emits es w) = ethereum w"
  "ethers (emits es w) = ethers w"
  "hasPublicKeyCredential (emits es w) = hasPublicKeyCredential w"
  "isUVPAA (emits es w) = isUVPAA w"
  "hostname (emits es w) = hostname w"
  "userAgent (emits es w) = userAgent w"
  "random (emits es w) = random w"
  "random_pos (emits es w) = random_pos w"
  by (simp_all add: emits_def)

subsection \<open>Postconditions of the building blocks\<close>

lemma postD: "post m w Q \<Longrightarrow> m w = (r, w') \<Longrightarrow> Q r w'"
  by (simp add: post_def)

lemma post_resolve [post_simps]: "post (resolve x) w Q = Q (Inr x) w"
  by (simp add: post_def resolve_def)

lemma post_throw [post_simps]: "post (throw e) w Q = Q (Inl e) w"
  by (simp add: post_def throw_def)

lemma post_settle [post_simps]: "post (settle r) w Q = Q r w"
  by (simp add: post_def settle_def)

lemma post_reading [post_simps]: "post (reading f) w Q = Q (Inr (f w)) w"
  by (simp add: post_def reading_def)

lemma post_and_then [post_simps]:
  "post (and_then m f) w Q =
     post m w (\<lambda>r w'. case r of Inl e \<Rightarrow> Q (Inl e) w' | Inr x \<Rightarrow> post (f x) w' Q)"
  by (simp add: post_def and_then_def split: prod.splits sum.splits)

lemma post_try_catch [post_simps]:
  "post (try_catch m h) w Q =
     post m w (\<lambda>r w'. case r of Inl e \<Rightarrow> post (h e) w' Q | Inr x \<Rightarrow> Q (Inr x) w')"
  by (simp add: post_def try_catch_def split: prod.splits sum.splits)

lemma post_if [post_simps]:
  "post (if c then a else b) w Q = (if c then post a w Q else post b w Q)"
  by simp

lemma post_case_option [post_simps]:
  "post (case x of None \<Rightarrow> a | Some y \<Rightarrow> b y) w Q =
     (case x of None \<Rightarrow> post a w Q | Some y \<Rightarrow> post (b y) w Q)"
  by (simp split: option.splits)

lemma post_doFetch [post_simps]: "post (doFetch req) w Q = Q (fetch w req) (emit (Fetch req) w)"
  by (simp add: post_def doFetch_def)

lemma post_responseJson [post_simps]: "post (responseJson r) w Q = Q (json_body r) w"
  by (simp add: post_def responseJson_def settle_def)

lemma post_getRandomValues [post_simps]:
  "post (getRandomValues n) w Q =
     Q (Inr (map (random w) [random_pos w ..< random_pos w + n]))
       (w\<lparr>random_pos := random_pos w + n\<rparr>)"
  by (simp add: post_def getRandomValues_def)

lemma post_credentialsCreate [post_simps]:
  "post (credentialsCreate options) w Q =
     Q (credentials_create w options) (emit (CredentialsCreate options) w)"
  by (simp add: post_def credentialsCreate_def)

lemma post_credentialsGet [post_simps]:
  "post (credentialsGet options) w Q =
     Q (credentials_get w options) (emit (CredentialsGet options) w)"
  by (simp add: post_def credentialsGet_def)

lemma post_requestAccounts [post_simps]:
  "post (requestAccounts p) w Q = Q (eth_accounts p) (emit EthAccounts w)"
  by (simp add: post_def requestAccounts_def)

lemma post_personalSign [post_simps]:
  "post (personalSign p m a) w Q = Q (personal_sign p m a) (emit (PersonalSign m a) w)"
  by (simp add: post_def personalSign_def)

lemma post_statusCallback [post_simps]:
  "post (statusCallback t) w Q = Q (Inr ()) (emit (Status t) w)"
  by (simp add: post_def statusCallback_def)

lemma post_localStorage_setItem [post_simps]:
  "post (localStorage_setItem k v) w Q =
     Q (Inr ()) (w\<lparr>localStorage := (localStorage w)(k \<mapsto> v)\<rparr>)"
  by (simp add: post_def localStorage_setItem_def)

lemma post_localStorage_getItem [post_simps]:
  "post (localStorage_getItem k) w Q = Q (Inr (localStorage w k)) w"
  by (simp add: post_def localStorage_getItem_def)

lemma post_sessionStorage_setItem [post_simps]:
  "post (sessionStorage_setItem k v) w Q =
     Q (Inr ()) (w\<lparr>sessionStorage := (sessionStorage w)(k \<mapsto> v)\<rparr>)"
  by (simp add: post_def sessionStorage_setItem_def)

subsection \<open>Summaries of the helpers of the manager\<close>

lemma post_isAvailable: "post isAvailable w Q = Q (Inr (available w)) w"
  unfolding isAvailable_def available_def
  by (auto simp: post_simps split: sum.splits)

lemma run_sessionUserId:
  "run sessionUserId w r w' \<Longrightarrow> w' = emits [Fetch sessionInfoRequest] w \<and> (\<exists>u. r = Inr u)"
  unfolding sessionUserId_def
  by (auto elim!: run_elims dest!: run_prims simp: emit_is_emits split: json.splits option.splits)

lemma run_getCurrentWalletAddress:
  "run getCurrentWalletAddress w r w' \<Longrightarrow>
     w' = emits [Fetch sessionInfoRequest] w \<or> w' = emits [Fetch sessionInfoRequest, EthAccounts] w"
  unfolding getCurrentWalletAddress_def
  by (auto elim!: run_elims dest!: run_sessionUserId run_prims simp: emit_is_emits emits_emits)

lemma wallet_events_cases:
  "wallet_events w = [Fetch sessionInfoRequest] \<or>
   wallet_events w = [Fetch sessionInfoRequest, EthAccounts]"
  using run_getCurrentWalletAddress
    [of w "fst (getCurrentWalletAddress w)" "snd (getCurrentWalletAddress w)"]
  by (auto simp: run_def wallet_events_def)

lemma post_getCurrentWalletAddress:
  "post getCurrentWalletAddress w Q =
     Q (fst (getCurrentWalletAddress w)) (emits (wallet_events w) w)"
  using run_getCurrentWalletAddress
    [of w "fst (getCurrentWalletAddress w)" "snd (getCurrentWalletAddress w)"]
  by (auto simp: run_def wallet_events_def post_def)

lemma post_getStoredCredentialId [post_simps]:
  "post (getStoredCredentialId a) w Q = Q (Inr (localStorage w (''biometric_credential_'' @ a))) w"
  by (simp add: getStoredCredentialId_def post_def localStorage_getItem_def)

lemma post_storeCredentialId [post_simps]:
  "post (storeCredentialId a c) w Q =
     Q (Inr ()) (w\<lparr>localStorage := (localStorage w)(''biometric_credential_'' @ a \<mapsto> c)\<rparr>)"
  by (simp add: storeCredentialId_def post_def localStorage_setItem_def)

lemmas post_summaries = post_isAvailable post_getCurrentWalletAddress

subsection \<open>Traces\<close>

lemma fetched_append [simp]: "fetched (a @ b) = fetched a @ fetched b"
  by (induction a rule: fetched.induct) simp_all

lemma asked_append [simp]: "asked (a @ b) = asked a @ asked b"
  by (induction a rule: asked.induct) simp_all

lemma created_append [simp]: "created (a @ b) = created a @ created b"
  by (induction a rule: created.induct) simp_all

lemma posted_append [simp]: "posted (a @ b) = posted a @ posted b"
  by (simp add: posted_def)

lemma posted_simps [simp]:
  "posted [] = []"
  "posted (Fetch q # es) = (if req_method q = ''POST'' then q # posted es else posted es)"
  "posted (CredentialsGet go # es) = posted es"
  "posted (CredentialsCreate co # es) = posted es"
  "posted (PersonalSign m a # es) = posted es"
  "posted (EthAccounts # es) = posted es"
  "posted (Status t # es) = posted es"
  by (simp_all add: posted_def)

lemma wallet_events_observed [simp]:
  "fetched (wallet_events w) = [sessionInfoRequest]"
  "posted (wallet_events w) = []"
  "asked (wallet_events w) = []"
  "created (wallet_events w) = []"
  using wallet_events_cases [of w] by (auto simp: sessionInfoRequest_def)

lemma new_events_self [simp]: "new_events w w = []"
  by (simp add: new_events_def)

lemma new_events_emits [simp]: "new_events w (emits es w) = es"
  by (simp add: new_events_def)

lemma request_methods [simp]:
  "req_method sessionInfoRequest = ''GET''"
  "req_method (challengeRequest path content) = ''GET''"
  "req_method (proposalRequest pid wa cid sig pk ch path content tier) = ''POST''"
  "req_method (registrationRequest agent wa cid pk dn ws) = ''POST''"
  "req_method (registerRequest wd) = ''POST''"
  by (simp_all add: sessionInfoRequest_def challengeRequest_def proposalRequest_def
      registrationRequest_def registerRequest_def)

section \<open>Key derivation: what the two scripts compute\<close>

lemma page_fields:
  "hasPublicKeyCredential page" "isUVPAA page = Inr True"
  "ethers page = Some stub_ethers"
  "ethereum page = Some \<lparr>personal_sign = (\<lambda>message account. Inr ''0x5167''),
       eth_accounts = Inr [''0x00000000000000000000000000000000000000a1'']\<rparr>"
  "hostname page = ''localhost''" "userAgent page = ''agent''"
  "random_pos page = 0" "events page = []"
  "fetch page req = Inr \<lparr>ok = True,
       json_body = Inr (JObj [(''userID'', JStr ''0x00000000000000000000000000000000000000a1''),
                              (''challenge'', JStr ''AQID''),
                              (''proposalId'', JStr ''p1'')])\<rparr>"
  "credentials_get page go = Inr \<lparr>as_id = ''Y3JlZA'', as_signature = [1, 2, 3]\<rparr>"
  "credentials_create page co = Inr \<lparr>cred_id = ''Y3JlZA'', cred_rawId = [99, 114, 101, 100],
             getPublicKey = Some (Some p256_generator)\<rparr>"
  "localStorage page =
     [''biometric_credential_0x00000000000000000000000000000000000000a1'' \<mapsto> ''Y3JlZA'']"
  "sessionStorage page = Map.empty"
  by (simp_all add: page_def)

lemma ensureEthers_run:
  "ensureEthers w =
     (case ethers w of
        None \<Rightarrow> (Inl (Error (''ethers.js not loaded. Add: <script src='' @ [CHR 0x22] @
                 ''https://cdn.ethers.io/lib/ethers-5.7.2.umd.min.js'' @ [CHR 0x22] @
                 ''></script>'')), w)
      | Some lib \<Rightarrow> (Inr lib, w))"
  by (simp add: ensureEthers_def and_then_def reading_def throw_def resolve_def
      split: option.splits)

lemma deriveSecp256k1Wallet_run:
  "deriveSecp256k1Wallet k w =
     (case ensureEthers w of
        (Inl e, w') \<Rightarrow> (Inl e, w)
      | (Inr lib, w') \<Rightarrow> (Wallet lib (''0x'' @ bytesToHex (sha256 k)), w))"
  by (simp add: deriveSecp256k1Wallet_def and_then_def settle_def Let_def ensureEthers_run
      split: option.splits)

lemma deriveSecp256k1Wallet_loaded:
  "ethers w = Some lib \<Longrightarrow>
     deriveSecp256k1Wallet k w = (Wallet lib (''0x'' @ bytesToHex (sha256 k)), w)"
  by (simp add: deriveSecp256k1Wallet_run ensureEthers_run)

lemma deriveEthereumWallet_loaded:
  "ethers w = Some lib \<Longrightarrow>
     deriveEthereumWallet k w =
       (case Wallet lib (''0x'' @ bytesToHex (sha256 k)) of
          Inl e \<Rightarrow> Inl e
        | Inr wl \<Rightarrow> Inr \<lparr>address = address wl, privateKey = privateKey wl,
                         publicKey = publicKey wl\<rparr>, w)"
  by (simp add: deriveEthereumWallet_def and_then_def resolve_def deriveSecp256k1Wallet_loaded
      split: sum.splits)

lemma derive_unchanged:
  "snd (deriveSecp256k1Wallet k w) = w" "snd (deriveEthereumWallet k w) = w"
  by (simp_all add: deriveEthereumWallet_def and_then_def resolve_def deriveSecp256k1Wallet_run
      ensureEthers_run split: option.splits sum.splits prod.splits)

lemma derive_reads_ethers_only:
  assumes "ethers w' = ethers w"
  shows "fst (deriveSecp256k1Wallet k w') = fst (deriveSecp256k1Wallet k w)"
    and "fst (deriveEthereumWallet k w') = fst (deriveEthereumWallet k w)"
  using assms
  by (simp_all add: deriveEthereumWallet_def and_then_def resolve_def deriveSecp256k1Wallet_run
      ensureEthers_run split: option.splits sum.splits prod.splits)

text \<open>
  Claim C1, as amended. For every 65-byte public key: \<^verbatim>\<open>deriveSecp256k1Wallet\<close> and
  \<^verbatim>\<open>deriveEthereumWallet\<close> hash the whole key, prefix byte and coordinates, with SHA-256 to
  32 bytes and hand the digest in hexadecimal to \<^verbatim>\<open>ethers.Wallet\<close> as the private key,
  whose address and public key they return; \<^verbatim>\<open>deriveEthereumAddress\<close> hashes the 64
  coordinate bytes with SHA-256 and returns \<^verbatim>\<open>0x\<close> and the first 20 bytes of the digest
  in hexadecimal, a truncated hash used directly as the address.
\<close>

theorem derivation_algorithm:
  assumes "length k = 65" and "ethers w = Some lib"
  shows "length (sha256 k) = 32 \<and>
    fst (deriveSecp256k1Wallet k w) = Wallet lib (''0x'' @ bytesToHex (sha256 k)) \<and>
    fst (deriveEthereumWallet k w) =
      (case Wallet lib (''0x'' @ bytesToHex (sha256 k)) of
         Inl e \<Rightarrow> Inl e
       | Inr wl \<Rightarrow> Inr \<lparr>address = address wl, privateKey = privateKey wl,
                        publicKey = publicKey wl\<rparr>) \<and>
    deriveEthereumAddress k = Inr (''0x'' @ bytesToHex (take 20 (sha256 (drop 1 k))))"
  using assms
  by (simp add: length_sha256 deriveSecp256k1Wallet_loaded deriveEthereumWallet_loaded
      deriveEthereumAddress_eq coordinateBytes_65)

theorem derivation_algorithm_witness:
  "length p256_generator = 65 \<and> ethers page = Some stub_ethers \<and>
   length (sha256 p256_generator) = 32 \<and>
   fst (deriveSecp256k1Wallet p256_generator page) =
     Inr \<lparr>address = ''0x00000000000000000000000000000000000000a1'',
          privateKey = ''0x'' @ bytesToHex (sha256 p256_generator),
          publicKey = ''0x04b1''\<rparr> \<and>
   deriveEthereumAddress p256_generator =
     Inr (''0x'' @ bytesToHex (take 20 (sha256 (drop 1 p256_generator))))"
proof -
  have l: "length p256_generator = 65" by (simp add: p256_generator_def)
  have e: "ethers page = Some stub_ethers" by (rule page_fields)
  show ?thesis
    using derivation_algorithm [OF l e] l e by (simp add: stub_ethers_def)
qed

text \<open>
  Claim C2. For every public-key byte string \<open>k\<close> the derivation is a function of \<open>k\<close>
  and of the loaded library alone: it gives the same identity in any two states of the page
  (whatever the random generator, the storages and the trace hold), it leaves the page as
  it was, and so a second call gives what the first gave.
\<close>

theorem derivation_deterministic:
  assumes "ethers w' = ethers w"
  shows "fst (deriveEthereumWallet k w') = fst (deriveEthereumWallet k w) \<and>
    fst (deriveSecp256k1Wallet k w') = fst (deriveSecp256k1Wallet k w) \<and>
    snd (deriveEthereumWallet k w) = w \<and>
    fst (deriveEthereumWallet k (snd (deriveEthereumWallet k w))) = fst (deriveEthereumWallet k w)"
  using derive_reads_ethers_only [OF assms] by (simp add: derive_unchanged)

theorem derivation_deterministic_witness:
  "ethers (page\<lparr>random_pos := 48, sessionStorage := [''k'' \<mapsto> ''v''], events := [EthAccounts]\<rparr>) =
     ethers page \<and>
   fst (deriveEthereumWallet p256_generator
          (page\<lparr>random_pos := 48, sessionStorage := [''k'' \<mapsto> ''v''], events := [EthAccounts]\<rparr>)) =
     fst (deriveEthereumWallet p256_generator page) \<and>
   snd (deriveEthereumWallet p256_generator page) = page"
proof -
  have e: "ethers (page\<lparr>random_pos := 48, sessionStorage := [''k'' \<mapsto> ''v''],
             events := [EthAccounts]\<rparr>) = ethers page"
    by simp
  show ?thesis
    using derivation_deterministic [OF e, of p256_generator] e by simp
qed

text \<open>
  Claim C7, as amended. The derivation does not validate its input. For every byte
  string, well-formed or not, \<^verbatim>\<open>deriveEthereumAddress\<close> returns an address of 42
  characters, reading missing coordinate bytes as zero; \<^verbatim>\<open>deriveSecp256k1Wallet\<close> hands
  the digest of whatever bytes it is given to the wallet constructor, so it fails only
  when the library is missing or when the constructor throws.
\<close>

theorem derivation_accepts_every_input:
  "deriveEthereumAddress k =
     Inr (''0x'' @ bytesToHex (take 20 (sha256 (coordinateBytes k)))) \<and>
   length (''0x'' @ bytesToHex (take 20 (sha256 (coordinateBytes k)))) = 42 \<and>
   (\<forall>lib. ethers w = Some lib \<longrightarrow>
      fst (deriveSecp256k1Wallet k w) = Wallet lib (''0x'' @ bytesToHex (sha256 k))) \<and>
   (ethers w = None \<longrightarrow> isl (fst (deriveSecp256k1Wallet k w)))"
  by (simp add: deriveEthereumAddress_eq length_bytesToHex length_sha256
      deriveSecp256k1Wallet_loaded deriveSecp256k1Wallet_run ensureEthers_run)

theorem derivation_accepts_every_input_witness:
  "\<not> wellFormedPublicKey [] \<and> ethers page = Some stub_ethers \<and>
   deriveEthereumAddress [] = Inr (''0x'' @ bytesToHex (take 20 (sha256 (replicate 64 0)))) \<and>
   fst (deriveSecp256k1Wallet [] page) =
     Inr \<lparr>address = ''0x00000000000000000000000000000000000000a1'',
          privateKey = ''0x'' @ bytesToHex (sha256 []),
          publicKey = ''0x04b1''\<rparr>"
proof -
  have e: "ethers page = Some stub_ethers" by (rule page_fields)
  have c: "coordinateBytes [] = replicate 64 0"
    by (simp add: coordinateBytes_def u8_slice_def replicate_add [symmetric])
  have m: "\<not> wellFormedPublicKey []" by (simp add: wellFormedPublicKey_def)
  show ?thesis
    using derivation_accepts_every_input [of "[]" page] e c m by (simp add: stub_ethers_def)
qed

section \<open>Signing a write proposal and registering a passkey: every run\<close>

lemma body_member_proposal:
  "body_member (proposalRequest pid wa cid sig pk ch path content tier) ''publicKey'' = Some (JStr pk)"
  "body_member (proposalRequest pid wa cid sig pk ch path content tier) ''path'' = Some (JStr path)"
  "body_member (proposalRequest pid wa cid sig pk ch path content tier) ''content'' =
     Some (JStr content)"
  "body_member (proposalRequest pid wa cid sig pk ch path content tier) ''tier'' =
     Some (JNum (case tier of None \<Rightarrow> 0 | Some t \<Rightarrow> t))"
  by (simp_all add: body_member_def proposalRequest_def stringify_def split: option.splits)

lemma sign_post_requests:
  "post (signWriteProposal path content tier) w (\<lambda>r w'.
     (\<forall>q\<in>set (fetched (new_events w w')). req_method q = ''GET'' \<longrightarrow>
         q = sessionInfoRequest \<or> q = challengeRequest path content) \<and>
     (asked (new_events w w') \<noteq> [] \<longrightarrow>
         challengeRequest path content \<in> set (fetched (new_events w w'))) \<and>
     (\<forall>q\<in>set (posted (new_events w w')).
         body_member q ''tier'' = Some (JNum (case tier of None \<Rightarrow> 0 | Some t \<Rightarrow> t)) \<and>
         body_member q ''content'' = Some (JStr content) \<and>
         body_member q ''path'' = Some (JStr path) \<and>
         body_member q ''publicKey'' = Some (JStr (arrayBufferToBase64 (replicate 65 0)))))"
  unfolding signWriteProposal_def Let_def extractPublicKeyFromAssertion_def
  by (simp add: post_simps post_summaries emit_is_emits emits_emits body_member_proposal
      split: sum.splits option.splits)

lemma sign_post_once:
  "post (signWriteProposal path content tier) w (\<lambda>r w'.
     length (posted (new_events w w')) \<le> 1 \<and> length (asked (new_events w w')) \<le> 1 \<and>
     (\<forall>q\<in>set (posted (new_events w w')). \<forall>e. fetch w q = Inl e \<longrightarrow> r = Inl e) \<and>
     localStorage w' = localStorage w \<and> sessionStorage w' = sessionStorage w)"
  unfolding signWriteProposal_def Let_def
  by (simp add: post_simps post_summaries emit_is_emits emits_emits
      split: sum.splits option.splits)

lemma sign_post_cancel:
  "post (signWriteProposal path content tier) w (\<lambda>r w'.
     (\<forall>opts\<in>set (asked (new_events w w')). \<forall>e. credentials_get w opts = Inl e \<longrightarrow>
         err_name e = ''NotAllowedError'' \<longrightarrow>
           r = Inl (Error ''User cancelled biometric authentication'') \<and>
           posted (new_events w w') = []))"
  unfolding signWriteProposal_def Let_def
  by (simp add: post_simps post_summaries emit_is_emits emits_emits
      split: sum.splits option.splits)

lemma register_post:
  "post (register walletAddress deviceName) w (\<lambda>r w'.
     sessionStorage w' = sessionStorage w \<and>
     (localStorage w' = localStorage w \<or>
        (\<exists>rr. r = Inr rr \<and>
           localStorage w' =
             (localStorage w)(''biometric_credential_'' @ walletAddress \<mapsto> rr_credentialId rr))) \<and>
     (\<forall>opts\<in>set (created (new_events w w')). \<forall>e. credentials_create w opts = Inl e \<longrightarrow>
         err_name e = ''NotAllowedError'' \<longrightarrow>
           r = Inl (Error ''User cancelled biometric registration'') \<and>
           fetched (new_events w w') = [] \<and> localStorage w' = localStorage w))"
  unfolding register_def Let_def
  by (simp add: post_simps post_summaries new_events_def
      split: sum.splits option.splits)

lemma sign_storage [simp]:
  "localStorage (snd (signWriteProposal path content tier w)) = localStorage w"
  "sessionStorage (snd (signWriteProposal path content tier w)) = sessionStorage w"
  using sign_post_once [of path content tier w] by (simp_all add: post_def)

subsection \<open>The login page\<close>

lemma post_ensureEthers: "post ensureEthers w Q = Q (fst (ensureEthers w)) w"
  by (simp add: post_def ensureEthers_run split: option.splits)

lemma post_deriveEthereumWallet:
  "post (deriveEthereumWallet k) w Q = Q (fst (deriveEthereumWallet k w)) w"
  by (simp add: post_def derive_unchanged)

lemma create_frame:
  "post createBiometricWallet w (\<lambda>r w'.
     localStorage w' = localStorage w \<and> sessionStorage w' = sessionStorage w)"
  unfolding createBiometricWallet_def Let_def
  by (simp add: post_simps post_ensureEthers post_deriveEthereumWallet
      split: sum.splits option.splits)

lemma create_storage [simp]:
  "localStorage (snd (createBiometricWallet w)) = localStorage w"
  "sessionStorage (snd (createBiometricWallet w)) = sessionStorage w"
  using create_frame [of w] by (simp_all add: post_def)

lemma post_createBiometricWallet:
  "post createBiometricWallet w Q =
     Q (fst (createBiometricWallet w)) (snd (createBiometricWallet w))"
  by (simp add: post_def)

lemma post_setupFailed:
  "post (setupFailed error) w Q = Q (Inl error) (emit (Status (failure_title error)) w)"
  unfolding setupFailed_def failure_title_def by (simp add: post_simps)

lemma register_wallet_frame:
  "post (registerBiometricWallet wd) w (\<lambda>r w'.
     localStorage w' = localStorage w \<and> sessionStorage w' = sessionStorage w)"
  unfolding registerBiometricWallet_def
  by (simp add: post_simps split: sum.splits option.splits)

lemma register_wallet_storage [simp]:
  "localStorage (snd (registerBiometricWallet wd w)) = localStorage w"
  "sessionStorage (snd (registerBiometricWallet wd w)) = sessionStorage w"
  using register_wallet_frame [of wd w] by (simp_all add: post_def)

lemma post_registerBiometricWallet:
  "post (registerBiometricWallet wd) w Q =
     Q (fst (registerBiometricWallet wd w)) (snd (registerBiometricWallet wd w))"
  by (simp add: post_def)

lemma setup_storage:
  "post setupBiometricWallet w (\<lambda>r w'.
     (isl r \<longrightarrow> localStorage w' = localStorage w \<and> sessionStorage w' = sessionStorage w) \<and>
     (\<forall>done. r = Inr done \<longrightarrow>
        (\<exists>wd. fst (createBiometricWallet w) = Inr wd \<and>
           localStorage w' = (localStorage w)
             (''blockchain_aem_wallet_address'' \<mapsto> address wd,
              ''blockchain_aem_credential_id'' \<mapsto> wd_credentialId wd,
              ''blockchain_aem_p256_pubkey'' \<mapsto> btoa (map fromCharCode (wd_p256PubKey wd)),
              ''blockchain_aem_secp256k1_pubkey'' \<mapsto> publicKey wd) \<and>
           sessionStorage w' =
             (sessionStorage w)(''blockchain_aem_private_key'' \<mapsto> privateKey wd) \<and>
           sr_address done = address wd \<and> sr_privateKey done = privateKey wd \<and>
           sr_credentialId done = wd_credentialId wd)))"
  unfolding setupBiometricWallet_def Let_def
  by (simp add: post_simps post_createBiometricWallet post_registerBiometricWallet
      post_setupFailed split: sum.splits)

subsection \<open>What the flows write and what they leave alone\<close>

lemma hex_digit_in: "n < 16 \<Longrightarrow> hex_digit n \<in> set ''0123456789abcdef''"
  unfolding hex_digit_def by (rule nth_mem) simp

lemma byte_hex_chars:
  assumes "n < 256"
  shows "set (padStart 2 (CHR ''0'') (toString16 n)) \<subseteq> set ''0123456789abcdef''"
proof (cases "n < 16")
  case True
  then show ?thesis
    using hex_digit_in [of n] by (simp add: padStart_def toString16.simps [of n])
next
  case False
  with assms have d: "n div 16 < 16" by simp
  have m: "n mod 16 < 16" by simp
  from False d show ?thesis
    using hex_digit_in [OF d] hex_digit_in [OF m]
    by (simp add: padStart_def toString16.simps [of n] toString16.simps [of "n div 16"])
qed

lemma bytesToHex_chars: "set (bytesToHex bs) \<subseteq> set ''0123456789abcdef''"
proof -
  have "set (padStart 2 (CHR ''0'') (toString16 (unat b))) \<subseteq> set ''0123456789abcdef''"
    for b :: byte
    by (rule byte_hex_chars) (rule unat_byte_less)
  then show ?thesis unfolding bytesToHex_def by (induction bs) auto
qed

lemma derived_key_form: "private_key_form (''0x'' @ bytesToHex (sha256 k))"
  using bytesToHex_chars [of "sha256 k"]
  by (simp add: private_key_form_def length_bytesToHex length_sha256 list_all_iff subset_iff)

lemma length_btoa: "length (btoa s) mod 4 = 0"
  using length_enc_body_pad [of "map of_char s"]
  by (simp add: btoa_def enc_groups_split)

lemma btoa_not_key: "\<not> private_key_form (btoa s)"
proof
  assume "private_key_form (btoa s)"
  then have "length (btoa s) = 66" by (simp add: private_key_form_def)
  with length_btoa [of s] show False by simp
qed

lemma decode_stored_key:
  "base64ToArrayBuffer (btoa (map fromCharCode bs)) = Inr bs"
  by (simp add: base64ToArrayBuffer_def atob_btoa fill_decoded)


lemma create_result:
  "post createBiometricWallet w (\<lambda>r w'.
     credentials_create w' = credentials_create w \<and> ethers w' = ethers w \<and>
     (\<forall>wd. r = Inr wd \<longrightarrow>
        (\<exists>lib options credential wal.
           ethers w = Some lib \<and> credentials_create w options = Inr credential \<and>
           Wallet lib (''0x'' @ bytesToHex (sha256 (wd_p256PubKey wd))) = Inr wal \<and>
           address wd = address wal \<and> privateKey wd = privateKey wal \<and>
           publicKey wd = publicKey wal \<and> wd_credentialId wd = cred_id credential)))"
  unfolding createBiometricWallet_def Let_def
  by (auto simp: post_simps post_ensureEthers ensureEthers_run post_deriveEthereumWallet
      deriveEthereumWallet_loaded split: sum.splits option.splits)

lemma register_result:
  "post (register walletAddress deviceName) w (\<lambda>r w'.
     credentials_create w' = credentials_create w \<and> ethers w' = ethers w \<and>
     (\<forall>rr. r = Inr rr \<longrightarrow>
        (\<exists>options credential. credentials_create w options = Inr credential \<and>
           rr_credentialId rr = cred_id credential)))"
  unfolding register_def Let_def
  by (auto simp: post_simps post_summaries split: sum.splits option.splits)

lemma register_wallet_env:
  "post (registerBiometricWallet wd) w (\<lambda>r w'.
     credentials_create w' = credentials_create w \<and> ethers w' = ethers w)"
  unfolding registerBiometricWallet_def
  by (simp add: post_simps split: sum.splits option.splits)

lemma setup_env:
  "credentials_create (snd (setupBiometricWallet w)) = credentials_create w"
  "ethers (snd (setupBiometricWallet w)) = ethers w"
proof -
  have c: "credentials_create (snd (createBiometricWallet w)) = credentials_create w"
    "ethers (snd (createBiometricWallet w)) = ethers w" for w
    using create_result [of w] by (simp_all add: post_def)
  have r: "credentials_create (snd (registerBiometricWallet wd w)) = credentials_create w"
    "ethers (snd (registerBiometricWallet wd w)) = ethers w" for wd w
    using register_wallet_env [of wd w] by (simp_all add: post_def)
  have "post setupBiometricWallet w (\<lambda>r w'.
      credentials_create w' = credentials_create w \<and> ethers w' = ethers w)"
    unfolding setupBiometricWallet_def Let_def
    by (simp add: post_simps post_createBiometricWallet post_registerBiometricWallet
        post_setupFailed c r split: sum.splits)
  then show "credentials_create (snd (setupBiometricWallet w)) = credentials_create w"
    and "ethers (snd (setupBiometricWallet w)) = ethers w"
    by (simp_all add: post_def)
qed

lemma sign_env: "ethers (snd (signWriteProposal path content tier w)) = ethers w"
proof -
  have "post (signWriteProposal path content tier) w (\<lambda>r w'. ethers w' = ethers w)"
    unfolding signWriteProposal_def Let_def
    by (simp add: post_simps post_summaries split: sum.splits option.splits)
  then show ?thesis by (simp add: post_def)
qed

lemma cycle_ethers: "ethers (cycle d p c t w) = ethers w"
proof -
  have r: "ethers (snd (register a d w)) = ethers w" for a w
    using register_result [of a d w] by (simp add: post_def)
  show ?thesis
    by (simp add: cycle_def endSession_def sign_env r setup_env split: prod.splits sum.splits)
       (metis setup_env(2) snd_conv)
qed

section \<open>Runs in the concrete pages\<close>

lemma declining_fields:
  "hasPublicKeyCredential declining_page" "isUVPAA declining_page = Inr True"
  "hostname declining_page = ''localhost''"
  "random_pos declining_page = 0" "events declining_page = []"
  "random declining_page = (\<lambda>i. word_of_nat i)"
  "fetch declining_page = fetch page"
  "credentials_get declining_page go = Inl NotAllowedError"
  "credentials_create declining_page co = Inl NotAllowedError"
  "localStorage declining_page = localStorage page"
  "sessionStorage declining_page = sessionStorage page"
  by (simp_all add: declining_page_def page_def)


lemma page_codecs:
  "base64ToArrayBuffer ''AQID'' = Inr [1, 2, 3]"
  "base64UrlToArrayBuffer ''Y3JlZA'' = Inr [99, 114, 101, 100]"
  "arrayBufferToBase64 [1, 2, 3] = ''AQID''"
  "encodeURIComponent ''/x'' = ''%2Fx''"
  "encodeURIComponent ''hello'' = ''hello''"
  by code_simp+

lemma placeholder_base64:
  "arrayBufferToBase64 (replicate 65 0) =
     ''AAAAAAAAAAAAAAAAAAAAAAAAAAAAAAAAAAAAAAAAAAAAAAAAAAAAAAAAAAAAAAAAAAAAAAAAAAAAAAAAAAAAAAA=''"
  by code_simp

lemma generator_base64:
  "arrayBufferToBase64 p256_generator =
     ''BGsX0fLhLEJH+Lzm5WOkQPJ3A32BLeszoPShOUXYmMKWT+NC4v4af5uO5+tKfA+eFivOM1drMV7Oy7ZAaDe/UfU=''"
  by code_simp

lemmas run_defs = signWriteProposal_def register_def getCurrentWalletAddress_def
  sessionUserId_def isAvailable_def Let_def get_prop_def js_toString_opt_def
  extractPublicKeyFromAssertion_def

lemma sign_page:
  "fst (signWriteProposal ''/x'' ''hello'' tier page) =
     Inr (JObj [(''userID'', JStr ''0x00000000000000000000000000000000000000a1''),
                (''challenge'', JStr ''AQID''), (''proposalId'', JStr ''p1'')])"
  "events (snd (signWriteProposal ''/x'' ''hello'' tier page)) =
     [Fetch sessionInfoRequest,
      Fetch (challengeRequest ''/x'' ''hello''),
      CredentialsGet \<lparr>ro_challenge = [1, 2, 3], ro_allowCredentials = [[99, 114, 101, 100]],
                      ro_userVerification = ''required'', ro_timeout = 60000\<rparr>,
      Fetch (proposalRequest (Some (JStr ''p1'')) ''0x00000000000000000000000000000000000000a1''
               ''Y3JlZA'' ''AQID'' (arrayBufferToBase64 (replicate 65 0)) (Some (JStr ''AQID''))
               ''/x'' ''hello'' tier)]"
proof -
  have "post (signWriteProposal ''/x'' ''hello'' tier) page (\<lambda>r w'.
      r = Inr (JObj [(''userID'', JStr ''0x00000000000000000000000000000000000000a1''),
                (''challenge'', JStr ''AQID''), (''proposalId'', JStr ''p1'')]) \<and>
      events w' =
       [Fetch sessionInfoRequest,
        Fetch (challengeRequest ''/x'' ''hello''),
        CredentialsGet \<lparr>ro_challenge = [1, 2, 3], ro_allowCredentials = [[99, 114, 101, 100]],
                        ro_userVerification = ''required'', ro_timeout = 60000\<rparr>,
        Fetch (proposalRequest (Some (JStr ''p1'')) ''0x00000000000000000000000000000000000000a1''
                 ''Y3JlZA'' ''AQID'' (arrayBufferToBase64 (replicate 65 0)) (Some (JStr ''AQID''))
                 ''/x'' ''hello'' tier)])"
    unfolding run_defs
    by (simp add: post_simps page_fields page_codecs)
  then show
    "fst (signWriteProposal ''/x'' ''hello'' tier page) =
       Inr (JObj [(''userID'', JStr ''0x00000000000000000000000000000000000000a1''),
                  (''challenge'', JStr ''AQID''), (''proposalId'', JStr ''p1'')])"
    "events (snd (signWriteProposal ''/x'' ''hello'' tier page)) =
       [Fetch sessionInfoRequest,
        Fetch (challengeRequest ''/x'' ''hello''),
        CredentialsGet \<lparr>ro_challenge = [1, 2, 3], ro_allowCredentials = [[99, 114, 101, 100]],
                        ro_userVerification = ''required'', ro_timeout = 60000\<rparr>,
        Fetch (proposalRequest (Some (JStr ''p1'')) ''0x00000000000000000000000000000000000000a1''
                 ''Y3JlZA'' ''AQID'' (arrayBufferToBase64 (replicate 65 0)) (Some (JStr ''AQID''))
                 ''/x'' ''hello'' tier)]"
    by (simp_all add: post_def)
qed

lemma sign_declining:
  "fst (signWriteProposal ''/x'' ''hello'' tier declining_page) =
     Inl (Error ''User cancelled biometric authentication'')"
  "events (snd (signWriteProposal ''/x'' ''hello'' tier declining_page)) =
     [Fetch sessionInfoRequest,
      Fetch (challengeRequest ''/x'' ''hello''),
      CredentialsGet \<lparr>ro_challenge = [1, 2, 3], ro_allowCredentials = [[99, 114, 101, 100]],
                      ro_userVerification = ''required'', ro_timeout = 60000\<rparr>]"
proof -
  have "post (signWriteProposal ''/x'' ''hello'' tier) declining_page (\<lambda>r w'.
      r = Inl (Error ''User cancelled biometric authentication'') \<and>
      events w' =
       [Fetch sessionInfoRequest,
        Fetch (challengeRequest ''/x'' ''hello''),
        CredentialsGet \<lparr>ro_challenge = [1, 2, 3], ro_allowCredentials = [[99, 114, 101, 100]],
                        ro_userVerification = ''required'', ro_timeout = 60000\<rparr>])"
    unfolding run_defs
    by (simp add: post_simps declining_fields page_fields page_codecs NotAllowedError_def)
  then show
    "fst (signWriteProposal ''/x'' ''hello'' tier declining_page) =
       Inl (Error ''User cancelled biometric authentication'')"
    "events (snd (signWriteProposal ''/x'' ''hello'' tier declining_page)) =
       [Fetch sessionInfoRequest,
        Fetch (challengeRequest ''/x'' ''hello''),
        CredentialsGet \<lparr>ro_challenge = [1, 2, 3], ro_allowCredentials = [[99, 114, 101, 100]],
                        ro_userVerification = ''required'', ro_timeout = 60000\<rparr>]"
    by (simp_all add: post_def)
qed

lemma register_declining:
  "fst (register ''0x00000000000000000000000000000000000000a1'' None declining_page) =
     Inl (Error ''User cancelled biometric registration'')"
  "events (snd (register ''0x00000000000000000000000000000000000000a1'' None declining_page)) =
     [CredentialsCreate (registrationOptions ''localhost'' (map word_of_nat [0..<32])
        ''0x00000000000000000000000000000000000000a1'')]"
  "localStorage (snd (register ''0x00000000000000000000000000000000000000a1'' None declining_page)) =
     localStorage declining_page"
proof -
  have "post (register ''0x00000000000000000000000000000000000000a1'' None) declining_page (\<lambda>r w'.
      r = Inl (Error ''User cancelled biometric registration'') \<and>
      events w' = [CredentialsCreate (registrationOptions ''localhost'' (map word_of_nat [0..<32])
        ''0x00000000000000000000000000000000000000a1'')] \<and>
      localStorage w' = localStorage declining_page)"
    unfolding run_defs
    by (simp add: post_simps declining_fields NotAllowedError_def del: upt_rec_numeral upt.simps)
  then show
    "fst (register ''0x00000000000000000000000000000000000000a1'' None declining_page) =
       Inl (Error ''User cancelled biometric registration'')"
    "events (snd (register ''0x00000000000000000000000000000000000000a1'' None declining_page)) =
       [CredentialsCreate (registrationOptions ''localhost'' (map word_of_nat [0..<32])
          ''0x00000000000000000000000000000000000000a1'')]"
    "localStorage (snd (register ''0x00000000000000000000000000000000000000a1'' None declining_page)) =
       localStorage declining_page"
    by (simp_all add: post_def)
qed


lemma create_page:
  "fst (createBiometricWallet page) =
     Inr \<lparr>address = ''0x00000000000000000000000000000000000000a1'',
          privateKey = ''0x'' @ bytesToHex (sha256 p256_generator),
          publicKey = ''0x04b1'',
          wd_credentialId = ''Y3JlZA'',
          wd_p256PubKey = p256_generator,
          wd_rawId = [99, 114, 101, 100]\<rparr>"
proof -
  have "post createBiometricWallet page (\<lambda>r w'. r =
     Inr \<lparr>address = ''0x00000000000000000000000000000000000000a1'',
          privateKey = ''0x'' @ bytesToHex (sha256 p256_generator),
          publicKey = ''0x04b1'',
          wd_credentialId = ''Y3JlZA'',
          wd_p256PubKey = p256_generator,
          wd_rawId = [99, 114, 101, 100]\<rparr>)"
    unfolding createBiometricWallet_def Let_def callGetPublicKey_def
    by (simp add: post_simps post_ensureEthers post_deriveEthereumWallet ensureEthers_run
        deriveEthereumWallet_loaded page_fields stub_ethers_def)
  then show ?thesis by (simp add: post_def)
qed

lemma setup_page:
  "fst (setupBiometricWallet page) =
     Inr \<lparr>sr_address = ''0x00000000000000000000000000000000000000a1'',
          sr_privateKey = ''0x'' @ bytesToHex (sha256 p256_generator),
          sr_credentialId = ''Y3JlZA''\<rparr>"
proof -
  have f: "fetch (snd (createBiometricWallet page)) = fetch page"
  proof -
    have "post createBiometricWallet page (\<lambda>r w'. fetch w' = fetch page)"
      unfolding createBiometricWallet_def Let_def
      by (simp add: post_simps post_ensureEthers post_deriveEthereumWallet
          split: sum.splits option.splits)
    then show ?thesis by (simp add: post_def)
  qed
  have "post setupBiometricWallet page (\<lambda>r w'. r =
     Inr \<lparr>sr_address = ''0x00000000000000000000000000000000000000a1'',
          sr_privateKey = ''0x'' @ bytesToHex (sha256 p256_generator),
          sr_credentialId = ''Y3JlZA''\<rparr>)"
    unfolding setupBiometricWallet_def registerBiometricWallet_def Let_def
    by (simp add: post_simps post_createBiometricWallet create_page f page_fields)
  then show ?thesis by (simp add: post_def)
qed

section \<open>The claims about the flows\<close>

lemma fresh_trace: "events w = [] \<Longrightarrow> new_events w w' = events w'"
  by (simp add: new_events_def)

lemma cycle_address:
  assumes "fst (setupBiometricWallet w) = Inr res"
  shows "localStorage (cycle d p c t w) ''blockchain_aem_wallet_address'' = Some (sr_address res)"
proof -
  obtain w1 where s: "setupBiometricWallet w = (Inr res, w1)"
    using assms by (cases "setupBiometricWallet w") simp
  from postD [OF setup_storage s]
  have ls: "localStorage w1 ''blockchain_aem_wallet_address'' = Some (sr_address res)"
    by auto
  obtain r2 w2 where reg: "register (sr_address res) d w1 = (r2, w2)"
    by (cases "register (sr_address res) d w1")
  from postD [OF register_post reg]
  have "localStorage w2 ''blockchain_aem_wallet_address'' =
      localStorage w1 ''blockchain_aem_wallet_address''"
    by auto
  with ls s reg show ?thesis by (simp add: cycle_def endSession_def)
qed

lemma cycle_storage:
  assumes "setupBiometricWallet w = (Inr res, w1)"
  shows "localStorage (cycle d p c t w) = localStorage (snd (register (sr_address res) d w1))"
  using assms by (simp add: cycle_def endSession_def)

lemma cycle_public_key:
  assumes "fst (setupBiometricWallet w) = Inr res" and "fst (createBiometricWallet w) = Inr wd"
  shows "localStorage (cycle d p c t w) ''blockchain_aem_p256_pubkey'' =
           Some (btoa (map fromCharCode (wd_p256PubKey wd)))"
proof -
  obtain w1 where s: "setupBiometricWallet w = (Inr res, w1)"
    using assms(1) by (cases "setupBiometricWallet w") simp
  from postD [OF setup_storage s] assms(2)
  have ls: "localStorage w1 ''blockchain_aem_p256_pubkey'' =
      Some (btoa (map fromCharCode (wd_p256PubKey wd)))"
    by auto
  obtain r2 w2 where reg: "register (sr_address res) d w1 = (r2, w2)"
    by (cases "register (sr_address res) d w1")
  from postD [OF register_post reg]
  have "localStorage w2 ''blockchain_aem_p256_pubkey'' =
      localStorage w1 ''blockchain_aem_p256_pubkey''"
    by auto
  with ls s reg show ?thesis by (simp add: cycle_def endSession_def)
qed

lemma cycle_session: "sessionStorage (cycle d p c t w) key = None"
  by (simp add: cycle_def endSession_def split: prod.splits sum.splits)

lemma setup_session:
  assumes "fst (setupBiometricWallet w) = Inr res"
  shows "sessionStorage (snd (setupBiometricWallet w)) ''blockchain_aem_private_key'' =
           Some (sr_privateKey res)"
proof -
  obtain w1 where s: "setupBiometricWallet w = (Inr res, w1)"
    using assms by (cases "setupBiometricWallet w") simp
  from postD [OF setup_storage s] show ?thesis using s by auto
qed

lemma generator_stored:
  "btoa (map fromCharCode p256_generator) =
     ''BGsX0fLhLEJH+Lzm5WOkQPJ3A32BLeszoPShOUXYmMKWT+NC4v4af5uO5+tKfA+eFivOM1drMV7Oy7ZAaDe/UfU=''"
  using generator_base64 by (simp add: arrayBufferToBase64_def foldl_append_char)

text \<open>
  Claim C3, as amended. Let the \<^verbatim>\<open>ethers\<close> library keep a private key of the form
  \<^verbatim>\<open>0x\<close> and 64 hexadecimal digits as the \<^verbatim>\<open>privateKey\<close> of the wallet it builds from it and
  give that wallet an address and a public key that do not have this form, and let the
  authenticator give credential ids that do not have it. Then, after the cycle of setting
  the wallet up, registering a passkey for it, signing a write proposal and ending the
  session, the session storage is empty, and every value in the durable local storage was
  there before the cycle or is the wallet address, a credential id or one of the two public
  keys, does not have the form of a private key and is not the derived private key. That
  key has the form, and during the session it was in the session storage under
  \<^verbatim>\<open>blockchain_aem_private_key\<close>. It is not gone with the session, though: the durable
  \<^verbatim>\<open>blockchain_aem_p256_pubkey\<close> decodes to the bytes whose SHA-256 digest, in hexadecimal
  after \<^verbatim>\<open>0x\<close>, is the private key, and \<^verbatim>\<open>deriveSecp256k1Wallet\<close> builds the wallet with
  that private key from them again.
\<close>

theorem durable_storage_after_cycle:
  assumes library: "\<forall>lib key wal. ethers w = Some lib \<and> Wallet lib key = Inr wal \<longrightarrow>
        (private_key_form key \<longrightarrow> privateKey wal = key) \<and>
        \<not> private_key_form (address wal) \<and> \<not> private_key_form (publicKey wal)"
    and authenticator: "\<forall>options credential. credentials_create w options = Inr credential \<longrightarrow>
        \<not> private_key_form (cred_id credential)"
  shows "sessionStorage (cycle d p c t w) = Map.empty \<and>
   (\<forall>k v. localStorage (cycle d p c t w) k = Some v \<longrightarrow>
      localStorage w k = Some v \<or>
      (\<not> private_key_form v \<and>
       (\<exists>wd. fst (createBiometricWallet w) = Inr wd \<and> v \<noteq> privateKey wd \<and>
          (v \<in> stored_by_setup wd \<or>
           (\<exists>rr. fst (register (address wd) d (snd (setupBiometricWallet w))) = Inr rr \<and>
                 v = rr_credentialId rr))))) \<and>
   (\<forall>done. fst (setupBiometricWallet w) = Inr done \<longrightarrow>
      private_key_form (sr_privateKey done) \<and>
      sessionStorage (snd (setupBiometricWallet w)) ''blockchain_aem_private_key'' =
        Some (sr_privateKey done) \<and>
      (\<exists>stored pk wal.
         localStorage (cycle d p c t w) ''blockchain_aem_p256_pubkey'' = Some stored \<and>
         base64ToArrayBuffer stored = Inr pk \<and>
         sr_privateKey done = ''0x'' @ bytesToHex (sha256 pk) \<and>
         fst (deriveSecp256k1Wallet pk (cycle d p c t w)) = Inr wal \<and>
         privateKey wal = sr_privateKey done))"
proof -
  obtain r1 w1 where s: "setupBiometricWallet w = (r1, w1)" by (cases "setupBiometricWallet w")
  note st = postD [OF setup_storage s]
  have a: "sessionStorage (cycle d p c t w) = Map.empty"
    by (simp add: cycle_def endSession_def split: prod.splits sum.splits)
  have created: "privateKey wd = ''0x'' @ bytesToHex (sha256 (wd_p256PubKey wd)) \<and>
      \<not> private_key_form (address wd) \<and> \<not> private_key_form (publicKey wd) \<and>
      \<not> private_key_form (wd_credentialId wd)"
    if "fst (createBiometricWallet w) = Inr wd" for wd
  proof -
    from that create_result [of w]
    obtain lib options credential wal where e: "ethers w = Some lib"
      and cr: "credentials_create w options = Inr credential"
      and wl: "Wallet lib (''0x'' @ bytesToHex (sha256 (wd_p256PubKey wd))) = Inr wal"
      and f: "address wd = address wal" "privateKey wd = privateKey wal"
        "publicKey wd = publicKey wal" "wd_credentialId wd = cred_id credential"
      by (auto simp: post_def)
    from library e wl derived_key_form [of "wd_p256PubKey wd"]
    have "privateKey wal = ''0x'' @ bytesToHex (sha256 (wd_p256PubKey wd))"
      and "\<not> private_key_form (address wal)" and "\<not> private_key_form (publicKey wal)"
      by blast+
    moreover from authenticator cr have "\<not> private_key_form (cred_id credential)" by blast
    ultimately show ?thesis using f by simp
  qed
  have b: "localStorage w k = Some v \<or>
      (\<not> private_key_form v \<and>
       (\<exists>wd. fst (createBiometricWallet w) = Inr wd \<and> v \<noteq> privateKey wd \<and>
          (v \<in> stored_by_setup wd \<or>
           (\<exists>rr. fst (register (address wd) d (snd (setupBiometricWallet w))) = Inr rr \<and>
                 v = rr_credentialId rr))))"
    if kv: "localStorage (cycle d p c t w) k = Some v" for k v
  proof (cases r1)
    case (Inl e)
    with st s kv show ?thesis by (simp add: cycle_def endSession_def)
  next
    case (Inr res)
    with st obtain wd where wd: "fst (createBiometricWallet w) = Inr wd"
      and ls: "localStorage w1 = (localStorage w)
             (''blockchain_aem_wallet_address'' \<mapsto> address wd,
              ''blockchain_aem_credential_id'' \<mapsto> wd_credentialId wd,
              ''blockchain_aem_p256_pubkey'' \<mapsto> btoa (map fromCharCode (wd_p256PubKey wd)),
              ''blockchain_aem_secp256k1_pubkey'' \<mapsto> publicKey wd)"
      and ad: "sr_address res = address wd"
      by auto
    note cw = created [OF wd]
    have key: "private_key_form (privateKey wd)"
      using cw derived_key_form [of "wd_p256PubKey wd"] by simp
    have setup_values: "\<not> private_key_form u" if "u \<in> stored_by_setup wd" for u
      using that cw btoa_not_key by (auto simp: stored_by_setup_def)
    obtain r2 w2 where reg: "register (address wd) d w1 = (r2, w2)"
      by (cases "register (address wd) d w1")
    note regp = postD [OF register_post reg]
    have fin: "localStorage (cycle d p c t w) = localStorage w2"
      using cycle_storage [of w res w1 d p c t] s Inr ad reg by simp
    have from_setup: "?thesis" if "((localStorage w)
             (''blockchain_aem_wallet_address'' \<mapsto> address wd,
              ''blockchain_aem_credential_id'' \<mapsto> wd_credentialId wd,
              ''blockchain_aem_p256_pubkey'' \<mapsto> btoa (map fromCharCode (wd_p256PubKey wd)),
              ''blockchain_aem_secp256k1_pubkey'' \<mapsto> publicKey wd)) k = Some v"
    proof -
      from that have "localStorage w k = Some v \<or> v \<in> stored_by_setup wd"
        by (auto simp: stored_by_setup_def split: if_splits)
      then show ?thesis
      proof
        assume "localStorage w k = Some v"
        then show ?thesis by simp
      next
        assume m: "v \<in> stored_by_setup wd"
        with setup_values have n: "\<not> private_key_form v" by blast
        with key have "v \<noteq> privateKey wd" by auto
        with m n wd show ?thesis by blast
      qed
    qed
    from regp consider "localStorage w2 = localStorage w1"
      | rr where "r2 = Inr rr"
          "localStorage w2 = (localStorage w1)(''biometric_credential_'' @ address wd \<mapsto> rr_credentialId rr)"
      by auto
    then show ?thesis
    proof cases
      case 1
      with fin kv ls show ?thesis by (intro from_setup) simp
    next
      case 2
      show ?thesis
      proof (cases "k = ''biometric_credential_'' @ address wd")
        case True
        with 2 fin kv have v: "v = rr_credentialId rr" by simp
        have rg: "fst (register (address wd) d (snd (setupBiometricWallet w))) = Inr rr"
          using s reg 2 by simp
        from postD [OF register_result reg] 2(1)
        obtain options credential where "credentials_create w1 options = Inr credential"
          and "rr_credentialId rr = cred_id credential"
          by auto
        moreover have "credentials_create w1 = credentials_create w"
          using setup_env [of w] s by simp
        ultimately have n: "\<not> private_key_form v" using authenticator v by auto
        with key have "v \<noteq> privateKey wd" by auto
        with n v rg wd show ?thesis by blast
      next
        case False
        with 2 fin kv ls show ?thesis by (intro from_setup) simp
      qed
    qed
  qed
  have c: "private_key_form (sr_privateKey res) \<and>
      sessionStorage (snd (setupBiometricWallet w)) ''blockchain_aem_private_key'' =
        Some (sr_privateKey res) \<and>
      (\<exists>stored pk wal.
         localStorage (cycle d p c t w) ''blockchain_aem_p256_pubkey'' = Some stored \<and>
         base64ToArrayBuffer stored = Inr pk \<and>
         sr_privateKey res = ''0x'' @ bytesToHex (sha256 pk) \<and>
         fst (deriveSecp256k1Wallet pk (cycle d p c t w)) = Inr wal \<and>
         privateKey wal = sr_privateKey res)"
    if ok: "fst (setupBiometricWallet w) = Inr res" for res
  proof -
    from ok s have r1: "r1 = Inr res" by simp
    with st obtain wd where wd: "fst (createBiometricWallet w) = Inr wd"
      and ls: "localStorage w1 = (localStorage w)
             (''blockchain_aem_wallet_address'' \<mapsto> address wd,
              ''blockchain_aem_credential_id'' \<mapsto> wd_credentialId wd,
              ''blockchain_aem_p256_pubkey'' \<mapsto> btoa (map fromCharCode (wd_p256PubKey wd)),
              ''blockchain_aem_secp256k1_pubkey'' \<mapsto> publicKey wd)"
      and ss: "sessionStorage w1 = (sessionStorage w)(''blockchain_aem_private_key'' \<mapsto> privateKey wd)"
      and ad: "sr_address res = address wd" and pk: "sr_privateKey res = privateKey wd"
      by auto
    note cw = created [OF wd]
    from wd create_result [of w]
    obtain lib wal where e: "ethers w = Some lib"
      and wl: "Wallet lib (''0x'' @ bytesToHex (sha256 (wd_p256PubKey wd))) = Inr wal"
      and pw: "privateKey wd = privateKey wal"
      by (auto simp: post_def)
    have again: "fst (deriveSecp256k1Wallet (wd_p256PubKey wd) (cycle d p c t w)) = Inr wal"
      using e wl by (simp add: deriveSecp256k1Wallet_loaded cycle_ethers)
    obtain r2 w2 where reg: "register (address wd) d w1 = (r2, w2)"
      by (cases "register (address wd) d w1")
    from postD [OF register_post reg]
    have "localStorage w2 ''blockchain_aem_p256_pubkey'' =
        localStorage w1 ''blockchain_aem_p256_pubkey''"
      by auto
    moreover have "localStorage (cycle d p c t w) = localStorage w2"
      using cycle_storage [of w res w1 d p c t] s r1 ad reg by simp
    ultimately have stored: "localStorage (cycle d p c t w) ''blockchain_aem_p256_pubkey'' =
        Some (btoa (map fromCharCode (wd_p256PubKey wd)))"
      using ls by simp
    have "private_key_form (sr_privateKey res)"
      using cw pk derived_key_form [of "wd_p256PubKey wd"] by simp
    moreover have "sessionStorage (snd (setupBiometricWallet w)) ''blockchain_aem_private_key'' =
        Some (sr_privateKey res)"
      using s ss pk by simp
    moreover have "sr_privateKey res = ''0x'' @ bytesToHex (sha256 (wd_p256PubKey wd))"
      using cw pk by simp
    ultimately show ?thesis
      using stored decode_stored_key [of "wd_p256PubKey wd"] again pw pk by metis
  qed
  from a b c show ?thesis by blast
qed

theorem durable_storage_after_cycle_witness:
  "sessionStorage (cycle None ''/x'' ''hello'' (Some 2) page) = Map.empty \<and>
   localStorage (cycle None ''/x'' ''hello'' (Some 2) page) ''blockchain_aem_wallet_address'' =
     Some ''0x00000000000000000000000000000000000000a1'' \<and>
   localStorage page ''blockchain_aem_wallet_address'' = None \<and>
   \<not> private_key_form ''0x00000000000000000000000000000000000000a1'' \<and>
   private_key_form (''0x'' @ bytesToHex (sha256 p256_generator)) \<and>
   sessionStorage (snd (setupBiometricWallet page)) ''blockchain_aem_private_key'' =
     Some (''0x'' @ bytesToHex (sha256 p256_generator)) \<and>
   (\<exists>stored pk wal.
      localStorage (cycle None ''/x'' ''hello'' (Some 2) page) ''blockchain_aem_p256_pubkey'' =
        Some stored \<and>
      base64ToArrayBuffer stored = Inr pk \<and>
      ''0x'' @ bytesToHex (sha256 p256_generator) = ''0x'' @ bytesToHex (sha256 pk) \<and>
      fst (deriveSecp256k1Wallet pk (cycle None ''/x'' ''hello'' (Some 2) page)) = Inr wal \<and>
      privateKey wal = ''0x'' @ bytesToHex (sha256 p256_generator))"
proof -
  have library: "\<forall>lib key wal. ethers page = Some lib \<and> Wallet lib key = Inr wal \<longrightarrow>
        (private_key_form key \<longrightarrow> privateKey wal = key) \<and>
        \<not> private_key_form (address wal) \<and> \<not> private_key_form (publicKey wal)"
    by (auto simp: page_fields stub_ethers_def private_key_form_def)
  have authenticator: "\<forall>options credential. credentials_create page options = Inr credential \<longrightarrow>
        \<not> private_key_form (cred_id credential)"
    by (auto simp: page_fields private_key_form_def)
  note t = durable_storage_after_cycle [OF library authenticator, of None "''/x''" "''hello''" "Some 2"]
  note emptied = t [THEN conjunct1]
  have a: "localStorage (cycle None ''/x'' ''hello'' (Some 2) page) ''blockchain_aem_wallet_address'' =
      Some ''0x00000000000000000000000000000000000000a1''"
    using cycle_address [OF setup_page] by simp
  have b: "localStorage page ''blockchain_aem_wallet_address'' = None"
    by (simp add: page_fields)
  note written = t [THEN conjunct2, THEN conjunct1, rule_format, OF a]
  from written have n: "\<not> private_key_form ''0x00000000000000000000000000000000000000a1''"
    unfolding b by simp
  note kept = t [THEN conjunct2, THEN conjunct2, rule_format, OF setup_page]
  from kept
  have k: "private_key_form (''0x'' @ bytesToHex (sha256 p256_generator)) \<and>
   sessionStorage (snd (setupBiometricWallet page)) ''blockchain_aem_private_key'' =
     Some (''0x'' @ bytesToHex (sha256 p256_generator)) \<and>
   (\<exists>stored pk wal.
      localStorage (cycle None ''/x'' ''hello'' (Some 2) page) ''blockchain_aem_p256_pubkey'' =
        Some stored \<and>
      base64ToArrayBuffer stored = Inr pk \<and>
      ''0x'' @ bytesToHex (sha256 p256_generator) = ''0x'' @ bytesToHex (sha256 pk) \<and>
      fst (deriveSecp256k1Wallet pk (cycle None ''/x'' ''hello'' (Some 2) page)) = Inr wal \<and>
      privateKey wal = ''0x'' @ bytesToHex (sha256 p256_generator))"
    by simp
  from emptied a b n k show ?thesis by (intro conjI) blast+
qed

text \<open>
  Claim C3 as stated fails on the page where everything works: once the session has ended
  and the session storage no longer holds the private key, the value kept in the durable
  storage under \<^verbatim>\<open>blockchain_aem_p256_pubkey\<close> decodes to the P-256 public key, the private
  key the session exported is \<^verbatim>\<open>0x\<close> and the SHA-256 digest of these bytes, and the
  derivation of the page gives the wallet with that private key back from them. What the
  durable storage keeps is enough to sign.
\<close>

theorem durable_public_key_yields_private_key:
  "localStorage (cycle None ''/x'' ''hello'' (Some 2) page) ''blockchain_aem_p256_pubkey'' =
     Some ''BGsX0fLhLEJH+Lzm5WOkQPJ3A32BLeszoPShOUXYmMKWT+NC4v4af5uO5+tKfA+eFivOM1drMV7Oy7ZAaDe/UfU='' \<and>
   sessionStorage (cycle None ''/x'' ''hello'' (Some 2) page) ''blockchain_aem_private_key'' = None \<and>
   getPrivateKeyForExport (snd (setupBiometricWallet page)) =
     Some (''0x'' @ bytesToHex (sha256 p256_generator)) \<and>
   base64ToArrayBuffer
     ''BGsX0fLhLEJH+Lzm5WOkQPJ3A32BLeszoPShOUXYmMKWT+NC4v4af5uO5+tKfA+eFivOM1drMV7Oy7ZAaDe/UfU='' =
     Inr p256_generator \<and>
   fst (deriveSecp256k1Wallet p256_generator (cycle None ''/x'' ''hello'' (Some 2) page)) =
     Inr \<lparr>address = ''0x00000000000000000000000000000000000000a1'',
          privateKey = ''0x'' @ bytesToHex (sha256 p256_generator),
          publicKey = ''0x04b1''\<rparr>"
proof -
  have a: "localStorage (cycle None ''/x'' ''hello'' (Some 2) page) ''blockchain_aem_p256_pubkey'' =
      Some ''BGsX0fLhLEJH+Lzm5WOkQPJ3A32BLeszoPShOUXYmMKWT+NC4v4af5uO5+tKfA+eFivOM1drMV7Oy7ZAaDe/UfU=''"
    using cycle_public_key [OF setup_page create_page] by (simp add: generator_stored)
  have b: "getPrivateKeyForExport (snd (setupBiometricWallet page)) =
      Some (''0x'' @ bytesToHex (sha256 p256_generator))"
    using setup_session [OF setup_page] by (simp add: getPrivateKeyForExport_def)
  have c: "base64ToArrayBuffer
      ''BGsX0fLhLEJH+Lzm5WOkQPJ3A32BLeszoPShOUXYmMKWT+NC4v4af5uO5+tKfA+eFivOM1drMV7Oy7ZAaDe/UfU='' =
      Inr p256_generator"
    using decode_stored_key [of p256_generator] by (simp add: generator_stored)
  have d: "fst (deriveSecp256k1Wallet p256_generator (cycle None ''/x'' ''hello'' (Some 2) page)) =
      Inr \<lparr>address = ''0x00000000000000000000000000000000000000a1'',
           privateKey = ''0x'' @ bytesToHex (sha256 p256_generator),
           publicKey = ''0x04b1''\<rparr>"
    using deriveSecp256k1Wallet_loaded [of "cycle None ''/x'' ''hello'' (Some 2) page" stub_ethers]
    by (simp add: cycle_ethers page_fields stub_ethers_def)
  from a b c d show ?thesis by (simp add: cycle_session)
qed

text \<open>
  Claim C5, as amended. For every invocation of \<^verbatim>\<open>signWriteProposal\<close> with a path, a
  content and a tier, the requests sent with \<^verbatim>\<open>GET\<close> are the session lookup and the
  challenge request, whose URL carries the URL-encoded path and the URL-encoded raw content
  and nothing else: no digest is computed and the tier is not part of it. The challenge
  request has been sent whenever the authenticator is asked. The tier goes out only later,
  in the body of the proposal sent with \<^verbatim>\<open>POST\<close>, beside the path and the raw content.
\<close>

theorem challenge_request_carries_path_and_content:
  assumes "signWriteProposal path content tier w = (r, w')"
  shows "(\<forall>q\<in>set (fetched (new_events w w')). req_method q = ''GET'' \<longrightarrow>
         q = sessionInfoRequest \<or> q = challengeRequest path content) \<and>
     (asked (new_events w w') \<noteq> [] \<longrightarrow>
         challengeRequest path content \<in> set (fetched (new_events w w'))) \<and>
     req_url (challengeRequest path content) =
       ''/bin/blockchain-aem/propose-write-biometric?path='' @ encodeURIComponent path @
       ''&content='' @ encodeURIComponent content \<and>
     req_body (challengeRequest path content) = None \<and>
     (\<forall>q\<in>set (posted (new_events w w')).
         body_member q ''tier'' = Some (JNum (case tier of None \<Rightarrow> 0 | Some t \<Rightarrow> t)) \<and>
         body_member q ''content'' = Some (JStr content) \<and>
         body_member q ''path'' = Some (JStr path))"
  using postD [OF sign_post_requests assms] by (simp add: challengeRequest_def)

theorem challenge_request_carries_path_and_content_witness:
  "asked (new_events page (snd (signWriteProposal ''/x'' ''hello'' (Some 2) page))) \<noteq> [] \<and>
   challengeRequest ''/x'' ''hello'' \<in>
     set (fetched (new_events page (snd (signWriteProposal ''/x'' ''hello'' (Some 2) page)))) \<and>
   req_url (challengeRequest ''/x'' ''hello'') =
     ''/bin/blockchain-aem/propose-write-biometric?path=%2Fx&content=hello'' \<and>
   map (\<lambda>q. body_member q ''tier'')
     (posted (new_events page (snd (signWriteProposal ''/x'' ''hello'' (Some 2) page)))) =
     [Some (JNum 2)]"
proof -
  have "signWriteProposal ''/x'' ''hello'' (Some 2) page =
      (fst (signWriteProposal ''/x'' ''hello'' (Some 2) page),
       snd (signWriteProposal ''/x'' ''hello'' (Some 2) page))"
    by simp
  from challenge_request_carries_path_and_content [OF this]
  show ?thesis
    by (simp add: fresh_trace page_fields sign_page page_codecs)
qed

text \<open>
  Claim C5 as stated fails: the challenge request for the path \<^verbatim>\<open>/x\<close> and the content
  \<^verbatim>\<open>hello\<close> has the raw content in its URL, no digest and no tier, and it is the same
  request for tier 0 and for tier 2.
\<close>

theorem challenge_request_without_digest_and_tier:
  "take 2 (fetched (events (snd (signWriteProposal ''/x'' ''hello'' (Some 2) page)))) =
     [\<lparr>req_method = ''GET'', req_url = ''/system/sling/info.sessionInfo.json'', req_body = None\<rparr>,
      \<lparr>req_method = ''GET'',
       req_url = ''/bin/blockchain-aem/propose-write-biometric?path=%2Fx&content=hello'',
       req_body = None\<rparr>] \<and>
   take 2 (fetched (events (snd (signWriteProposal ''/x'' ''hello'' (Some 0) page)))) =
     take 2 (fetched (events (snd (signWriteProposal ''/x'' ''hello'' (Some 2) page))))"
  by (simp add: sign_page sessionInfoRequest_def challengeRequest_def page_codecs)

text \<open>
  Claim C6 fails on the code. With a passkey whose public key is the base point of P-256,
  the proposal that \<^verbatim>\<open>signWriteProposal\<close> submits has as its \<^verbatim>\<open>publicKey\<close> the base64 of
  65 zero bytes, the constant that \<^verbatim>\<open>_extractPublicKeyFromAssertion\<close> returns, and not the
  base64 of the registered key.
\<close>

theorem proposal_public_key_is_a_placeholder:
  "map (\<lambda>q. body_member q ''publicKey'')
     (posted (events (snd (signWriteProposal ''/x'' ''hello'' (Some 2) page)))) =
     [Some (JStr
       ''AAAAAAAAAAAAAAAAAAAAAAAAAAAAAAAAAAAAAAAAAAAAAAAAAAAAAAAAAAAAAAAAAAAAAAAAAAAAAAAAAAAAAAA='')] \<and>
   arrayBufferToBase64 p256_generator =
     ''BGsX0fLhLEJH+Lzm5WOkQPJ3A32BLeszoPShOUXYmMKWT+NC4v4af5uO5+tKfA+eFivOM1drMV7Oy7ZAaDe/UfU=''"
  by (simp add: sign_page body_member_proposal placeholder_base64 generator_base64 page_fields)

text \<open>
  Claim C8. Whenever the authenticator reports that the user declined the prompt
  (\<^verbatim>\<open>NotAllowedError\<close>): \<^verbatim>\<open>signWriteProposal\<close> rejects with the error
  \<^verbatim>\<open>User cancelled biometric authentication\<close>, has submitted no proposal and has left both
  storages as they were; \<^verbatim>\<open>register\<close> rejects with the error
  \<^verbatim>\<open>User cancelled biometric registration\<close>, has sent nothing to the backend and has
  stored no credential id.
\<close>

theorem cancelled_prompt_rejects:
  "(signWriteProposal path content tier w = (r, w') \<and> opts \<in> set (asked (new_events w w')) \<and>
      credentials_get w opts = Inl e \<and> err_name e = ''NotAllowedError'' \<longrightarrow>
        r = Inl (Error ''User cancelled biometric authentication'') \<and>
        posted (new_events w w') = [] \<and>
        localStorage w' = localStorage w \<and> sessionStorage w' = sessionStorage w) \<and>
   (register walletAddress deviceName w = (r2, w2) \<and> copts \<in> set (created (new_events w w2)) \<and>
      credentials_create w copts = Inl e2 \<and> err_name e2 = ''NotAllowedError'' \<longrightarrow>
        r2 = Inl (Error ''User cancelled biometric registration'') \<and>
        fetched (new_events w w2) = [] \<and>
        localStorage w2 = localStorage w \<and> sessionStorage w2 = sessionStorage w)"
proof (intro conjI impI)
  assume a: "signWriteProposal path content tier w = (r, w') \<and>
      opts \<in> set (asked (new_events w w')) \<and>
      credentials_get w opts = Inl e \<and> err_name e = ''NotAllowedError''"
  then have s: "signWriteProposal path content tier w = (r, w')" by simp
  from postD [OF sign_post_cancel s] a
  show "r = Inl (Error ''User cancelled biometric authentication'')"
    and "posted (new_events w w') = []"
    by blast+
  from postD [OF sign_post_once s]
  show "localStorage w' = localStorage w" and "sessionStorage w' = sessionStorage w"
    by simp_all
next
  assume a: "register walletAddress deviceName w = (r2, w2) \<and>
      copts \<in> set (created (new_events w w2)) \<and>
      credentials_create w copts = Inl e2 \<and> err_name e2 = ''NotAllowedError''"
  then have s: "register walletAddress deviceName w = (r2, w2)" by simp
  from postD [OF register_post s] a
  show "r2 = Inl (Error ''User cancelled biometric registration'')"
    and "fetched (new_events w w2) = []"
    and "localStorage w2 = localStorage w"
    and "sessionStorage w2 = sessionStorage w"
    by blast+
qed

theorem cancelled_prompt_rejects_witness:
  "asked (new_events declining_page (snd (signWriteProposal ''/x'' ''hello'' (Some 2) declining_page))) =
     [\<lparr>ro_challenge = [1, 2, 3], ro_allowCredentials = [[99, 114, 101, 100]],
       ro_userVerification = ''required'', ro_timeout = 60000\<rparr>] \<and>
   credentials_get declining_page
     \<lparr>ro_challenge = [1, 2, 3], ro_allowCredentials = [[99, 114, 101, 100]],
      ro_userVerification = ''required'', ro_timeout = 60000\<rparr> = Inl NotAllowedError \<and>
   err_name NotAllowedError = ''NotAllowedError'' \<and>
   fst (signWriteProposal ''/x'' ''hello'' (Some 2) declining_page) =
     Inl (Error ''User cancelled biometric authentication'') \<and>
   posted (new_events declining_page
     (snd (signWriteProposal ''/x'' ''hello'' (Some 2) declining_page))) = [] \<and>
   localStorage (snd (signWriteProposal ''/x'' ''hello'' (Some 2) declining_page)) =
     localStorage declining_page \<and>
   created (new_events declining_page
     (snd (register ''0x00000000000000000000000000000000000000a1'' None declining_page))) =
     [registrationOptions ''localhost'' (map word_of_nat [0..<32])
        ''0x00000000000000000000000000000000000000a1''] \<and>
   fst (register ''0x00000000000000000000000000000000000000a1'' None declining_page) =
     Inl (Error ''User cancelled biometric registration'') \<and>
   fetched (new_events declining_page
     (snd (register ''0x00000000000000000000000000000000000000a1'' None declining_page))) = []"
proof -
  let ?opts = "\<lparr>ro_challenge = [1, 2, 3], ro_allowCredentials = [[99, 114, 101, 100]],
      ro_userVerification = ''required'', ro_timeout = 60000\<rparr>"
  let ?copts = "registrationOptions ''localhost'' (map word_of_nat [0..<32])
        ''0x00000000000000000000000000000000000000a1''"
  let ?s = "signWriteProposal ''/x'' ''hello'' (Some 2) declining_page"
  let ?g = "register ''0x00000000000000000000000000000000000000a1'' None declining_page"
  have asked: "asked (new_events declining_page (snd ?s)) = [?opts]"
    by (simp add: fresh_trace declining_fields sign_declining)
  have made: "created (new_events declining_page (snd ?g)) = [?copts]"
    by (simp add: fresh_trace declining_fields register_declining)
  have n: "err_name NotAllowedError = ''NotAllowedError''"
    by (simp add: NotAllowedError_def)
  have h1: "?s = (fst ?s, snd ?s) \<and> ?opts \<in> set (asked (new_events declining_page (snd ?s))) \<and>
      credentials_get declining_page ?opts = Inl NotAllowedError \<and>
      err_name NotAllowedError = ''NotAllowedError''"
    using asked n by (simp add: declining_fields)
  have h2: "?g = (fst ?g, snd ?g) \<and> ?copts \<in> set (created (new_events declining_page (snd ?g))) \<and>
      credentials_create declining_page ?copts = Inl NotAllowedError \<and>
      err_name NotAllowedError = ''NotAllowedError''"
    using made n by (simp add: declining_fields)
  note t = cancelled_prompt_rejects [of "''/x''" "''hello''" "Some 2" declining_page "fst ?s" "snd ?s"
      ?opts NotAllowedError "''0x00000000000000000000000000000000000000a1''" None "fst ?g" "snd ?g"
      ?copts NotAllowedError]
  from t h1 h2 have
    "fst ?s = Inl (Error ''User cancelled biometric authentication'') \<and>
     posted (new_events declining_page (snd ?s)) = [] \<and>
     localStorage (snd ?s) = localStorage declining_page \<and>
     fst ?g = Inl (Error ''User cancelled biometric registration'') \<and>
     fetched (new_events declining_page (snd ?g)) = []"
    by blast
  with asked made n show ?thesis by (simp add: declining_fields)
qed




section \<open>The two derivations at concrete keys\<close>

text \<open>
  Claim C1 as stated fails: at the base point of P-256, a well-formed public key,
  \<^verbatim>\<open>deriveEthereumAddress\<close> returns as the address the first 40 hexadecimal digits of
  the digest of the coordinates.
\<close>

theorem truncated_hash_is_the_address:
  "wellFormedPublicKey p256_generator \<and>
   keccak256 (drop 1 p256_generator) =
     ''d875db7def232236aec738c6b0bb3e80142f5d0fd8f4df24fed6eef5cbb50d9f'' \<and>
   deriveEthereumAddress p256_generator = Inr ''0xd875db7def232236aec738c6b0bb3e80142f5d0f''"
proof -
  have l: "length p256_generator = 65" by (simp add: p256_generator_def)
  have "deriveEthereumAddress p256_generator =
      Inr (''0x'' @ take 40 (bytesToHex (sha256 (drop 1 p256_generator))))"
    using take_bytesToHex [of 20 "sha256 (drop 1 p256_generator)"]
    by (simp add: deriveEthereumAddress_eq coordinateBytes_65 [OF l])
  then show ?thesis
    using sha256_generator_coordinates generator_well_formed by (simp add: keccak256_def)
qed

text \<open>
  Claim C7 as stated fails: the all-zero point and the empty byte string are not
  well-formed public keys, and \<^verbatim>\<open>deriveEthereumAddress\<close> returns an address for both,
  the same one.
\<close>

theorem malformed_key_is_accepted:
  "\<not> wellFormedPublicKey (4 # replicate 64 0) \<and> \<not> wellFormedPublicKey [] \<and>
   deriveEthereumAddress (4 # replicate 64 0) = Inr ''0xf5a5fd42d16a20302798ef6ed309979b43003d23'' \<and>
   deriveEthereumAddress [] = Inr ''0xf5a5fd42d16a20302798ef6ed309979b43003d23''"
proof -
  have c0: "coordinateBytes [] = replicate 64 0"
    by (simp add: coordinateBytes_def u8_slice_def replicate_add [symmetric])
  have c1: "coordinateBytes (4 # replicate 64 0) = replicate 64 0"
    using coordinateBytes_65 [of "4 # replicate 64 0"] by simp
  have "deriveEthereumAddress k = Inr (''0x'' @ take 40 (bytesToHex (sha256 (coordinateBytes k))))"
    for k
    using take_bytesToHex [of 20 "sha256 (coordinateBytes k)"]
    by (simp add: deriveEthereumAddress_eq)
  moreover have "\<not> wellFormedPublicKey []"
    by (simp add: wellFormedPublicKey_def)
  ultimately show ?thesis
    using zero_point_malformed sha256_zero_coordinates by (simp add: c0 c1)
qed

section \<open>The challenge registry: single use\<close>

lemma nonces_below_empty: "nonces_below empty_registry"
  by (simp add: nonces_below_def empty_registry_def)

lemma nonces_below_step: "nonces_below reg \<Longrightarrow> nonces_below (apply_operation reg op)"
proof (cases op)
  case (Issue path digest tier now ttl)
  assume "nonces_below reg"
  then show ?thesis
    using Issue by (auto simp: nonces_below_def issue_def less_Suc_eq)
next
  case (Submit s now)
  assume "nonces_below reg"
  then show ?thesis
    using Submit by (auto simp: nonces_below_def submit_def split: option.splits if_splits)
qed

lemma consumed_step:
  assumes "nonces_below reg" and "consumed_in reg n"
  shows "consumed_in (apply_operation reg op) n"
proof (cases op)
  case (Issue path digest tier now ttl)
  from assms have "n < next_nonce reg"
    by (auto simp: nonces_below_def consumed_in_def split: option.splits)
  with assms(2) show ?thesis
    using Issue by (simp add: consumed_in_def issue_def)
next
  case (Submit s now)
  with assms(2) show ?thesis
    by (auto simp: consumed_in_def submit_def split: option.splits if_splits)
qed

lemma consumed_run:
  "nonces_below reg \<Longrightarrow> consumed_in reg n \<Longrightarrow>
     nonces_below (run_operations ops reg) \<and> consumed_in (run_operations ops reg) n"
  unfolding run_operations_def
proof (induction ops arbitrary: reg)
  case Nil
  then show ?case by simp
next
  case (Cons op ops)
  then show ?case
    using nonces_below_step [of reg op] consumed_step [of reg n op] by simp
qed

lemma nonces_below_run: "nonces_below (run_operations ops empty_registry)"
  unfolding run_operations_def
proof (induction ops rule: rev_induct)
  case Nil
  then show ?case by (simp add: nonces_below_empty)
next
  case (snoc op ops)
  then show ?case by (simp add: nonces_below_step)
qed

lemma signed_consumes:
  "fst (submit s now reg) = Signed \<Longrightarrow> consumed_in (snd (submit s now reg)) (sub_nonce s)"
  by (auto simp: submit_def consumed_in_def split: option.splits if_splits)

lemma consumed_rejects:
  "consumed_in reg (sub_nonce s) \<Longrightarrow> submit s now reg = (Rejected ChallengeConsumed, reg)"
  by (auto simp: submit_def consumed_in_def split: option.splits)

text \<open>
  Claim C4. Once a submission has been signed, every later submission with the same nonce
  is rejected with \<open>ChallengeConsumed\<close>, whatever reached the registry in between and
  also when its signature is valid; and a challenge on file that is not consumed is
  rejected with \<open>ChallengeExpired\<close> when it is presented after its expiry.
\<close>

theorem single_use_challenge:
  "(fst (submit s now (run_operations before empty_registry)) = Signed \<and>
      sub_nonce s' = sub_nonce s \<longrightarrow>
        fst (submit s' now'
              (run_operations between (snd (submit s now (run_operations before empty_registry))))) =
          Rejected ChallengeConsumed) \<and>
   (challenges reg (sub_nonce u) = Some c \<and> \<not> ch_consumed c \<and> ch_expiry c < late \<longrightarrow>
        submit u late reg = (Rejected ChallengeExpired, reg))"
proof (intro conjI impI)
  let ?reg = "run_operations before empty_registry"
  assume a: "fst (submit s now ?reg) = Signed \<and> sub_nonce s' = sub_nonce s"
  have "nonces_below (snd (submit s now ?reg))"
    using nonces_below_step [of ?reg "Submit s now"] nonces_below_run [of before] by simp
  moreover have "consumed_in (snd (submit s now ?reg)) (sub_nonce s)"
    using a signed_consumes by blast
  ultimately have "consumed_in (run_operations between (snd (submit s now ?reg))) (sub_nonce s')"
    using consumed_run a by simp
  then show "fst (submit s' now' (run_operations between (snd (submit s now ?reg)))) =
      Rejected ChallengeConsumed"
    by (simp add: consumed_rejects)
next
  assume "challenges reg (sub_nonce u) = Some c \<and> \<not> ch_consumed c \<and> ch_expiry c < late"
  then show "submit u late reg = (Rejected ChallengeExpired, reg)"
    by (simp add: submit_def)
qed

theorem single_use_challenge_witness:
  "fst (submit \<lparr>sub_nonce = 0, sub_path = ''/x'', sub_digest = ''d'', sub_tier = 0,
                sub_signature_valid = True\<rparr> 110
         (run_operations [Issue ''/x'' ''d'' 0 100 60] empty_registry)) = Signed \<and>
   fst (submit \<lparr>sub_nonce = 0, sub_path = ''/x'', sub_digest = ''d'', sub_tier = 0,
                sub_signature_valid = True\<rparr> 120
         (run_operations [Issue ''/y'' ''e'' 1 115 60]
            (snd (submit \<lparr>sub_nonce = 0, sub_path = ''/x'', sub_digest = ''d'', sub_tier = 0,
                          sub_signature_valid = True\<rparr> 110
                   (run_operations [Issue ''/x'' ''d'' 0 100 60] empty_registry))))) =
     Rejected ChallengeConsumed \<and>
   fst (submit \<lparr>sub_nonce = 0, sub_path = ''/x'', sub_digest = ''d'', sub_tier = 0,
                sub_signature_valid = True\<rparr> 161
         (run_operations [Issue ''/x'' ''d'' 0 100 60] empty_registry)) =
     Rejected ChallengeExpired"
proof -
  let ?s = "\<lparr>sub_nonce = 0, sub_path = ''/x'', sub_digest = ''d'', sub_tier = 0,
                sub_signature_valid = True\<rparr>"
  let ?c = "\<lparr>ch_proposal = 0, ch_path = ''/x'', ch_digest = ''d'', ch_tier = 0,
            ch_issued = 100, ch_expiry = 160, ch_consumed = False\<rparr>"
  let ?reg = "run_operations [Issue ''/x'' ''d'' 0 100 60] empty_registry"
  have c: "challenges ?reg (sub_nonce ?s) = Some ?c"
    by (simp add: run_operations_def issue_def empty_registry_def)
  have signed: "fst (submit ?s 110 ?reg) = Signed"
    by (simp add: submit_def c [simplified])
  note t = single_use_challenge [of ?s 110 "[Issue ''/x'' ''d'' 0 100 60]" ?s 120
      "[Issue ''/y'' ''e'' 1 115 60]" ?reg ?s ?c 161]
  from t signed have "fst (submit ?s 120 (run_operations [Issue ''/y'' ''e'' 1 115 60]
      (snd (submit ?s 110 ?reg)))) = Rejected ChallengeConsumed"
    by simp
  moreover from t c have "fst (submit ?s 161 ?reg) = Rejected ChallengeExpired"
    by simp
  ultimately show ?thesis using signed by simp
qed


end
